theory Spec2Isabelle
  imports Complex_Main "HOL-Library.Monad_Syntax" "HOL-Library.Word" "HOL-Library.Sublist"
begin

section \<open>The PLONK prover core of gnark (bn254 backend) and the GLV hint\<close>

text \<open>
  The development embeds \<^verbatim>\<open>internal/backend/bn254/plonk/prove.go\<close> (the functions
  \<^verbatim>\<open>ComputeLRO\<close>, \<^verbatim>\<open>ComputeZ\<close>, \<^verbatim>\<open>evalConstraints\<close>, \<^verbatim>\<open>evalIDCosets\<close>,
  \<^verbatim>\<open>evalConstraintOrdering\<close>, \<^verbatim>\<open>evalStartsAtOne\<close>, \<^verbatim>\<open>evaluateCosets\<close>, \<^verbatim>\<open>shiftZ\<close>,
  \<^verbatim>\<open>computeH\<close>, \<^verbatim>\<open>ProveRaw\<close>) and \<^verbatim>\<open>std/algebra/emulated/sw_emulated/hints.go\<close>
  (\<^verbatim>\<open>decomposeScalarG1\<close>).

  Conventions.
  \<^item> \<^verbatim>\<open>fr.Element\<close> is an element of a type \<open>'a\<close> of class \<open>field\<close>. The methods
    \<^verbatim>\<open>Add\<close>, \<^verbatim>\<open>Sub\<close>, \<^verbatim>\<open>Mul\<close>, \<^verbatim>\<open>Square\<close>, \<^verbatim>\<open>Exp\<close>, \<^verbatim>\<open>Inverse\<close>, \<^verbatim>\<open>Div\<close> of the field
    library are the operations of the class; in particular \<^verbatim>\<open>Inverse\<close> of zero is zero
    and \<^verbatim>\<open>Div(x, y)\<close> is \<open>x * inverse y\<close>, so neither ever fails.
  \<^item> A Go slice of field elements is the list of its elements; a read or a write out
    of range is a Go panic, which is the value \<open>None\<close>.
  \<^item> Go's \<^verbatim>\<open>int\<close> and \<^verbatim>\<open>uint64\<close> counters and lengths are natural numbers: every one
    of them is a length of a slice or a count of rows here, and the model has no
    slice of \<open>2^62\<close> elements or more.
  \<^item> Collaborators that live outside the two source files (the FFT, the commitment
    scheme, the Fiat-Shamir transcript, the solver, the lattice routines) are
    parameters: methods are fields of the record of their receiver, package-level
    functions are fields of one record of externals.
\<close>

subsection \<open>Slices and loops\<close>

definition get_at :: "'a list \<Rightarrow> nat \<Rightarrow> 'a option" where
  "get_at xs i = (if i < length xs then Some (xs ! i) else None)"

definition set_at :: "'a list \<Rightarrow> nat \<Rightarrow> 'a \<Rightarrow> 'a list option" where
  "set_at xs i v = (if i < length xs then Some (xs[i := v]) else None)"

text \<open>\<^verbatim>\<open>copy(dst, src)\<close>: the first \<open>min (len dst) (len src)\<close> elements are overwritten.\<close>

definition copy_slice :: "'a list \<Rightarrow> 'a list \<Rightarrow> 'a list" where
  "copy_slice dst src = take (length dst) src @ drop (length src) dst"

text \<open>\<^verbatim>\<open>xs[a:b]\<close> of a slice whose capacity is its length.\<close>

definition slice :: "'a list \<Rightarrow> nat \<Rightarrow> nat \<Rightarrow> 'a list option" where
  "slice xs a b = (if a \<le> b \<and> b \<le> length xs then Some (take (b - a) (drop a xs)) else None)"

text \<open>
  \<^verbatim>\<open>for i := i0; i < n; i++ { body }\<close> with a bound that the body does not change.
  The body maps the loop's variables to their new values, or panics.
\<close>

function for_loop :: "nat \<Rightarrow> nat \<Rightarrow> (nat \<Rightarrow> 's \<Rightarrow> 's option) \<Rightarrow> 's \<Rightarrow> 's option" where
  "for_loop i n body s =
     (if i < n then (case body i s of None \<Rightarrow> None | Some s' \<Rightarrow> for_loop (Suc i) n body s')
      else Some s)"
  by pat_completeness auto
termination
  by (relation "measure (\<lambda>(i, n, body, s). n - i)") auto

declare for_loop.simps [simp del]

subsection \<open>Data\<close>

type_synonym byte = "8 word"
type_synonym error = string

datatype Digest = Digest (digest_bytes: "byte list")
datatype OpeningProof = OpeningProof "byte list"
datatype BatchOpeningProofSinglePoint = BatchOpeningProofSinglePoint "byte list"

text \<open>The fields of an \<^verbatim>\<open>fft.Domain\<close> that the prover reads.\<close>

record 'a Domain =
  Cardinality :: nat
  Generator :: 'a
  FinerGenerator :: 'a

text \<open>
  The commitment scheme of \<^verbatim>\<open>PublicRaw\<close>. A Go result \<^verbatim>\<open>(value, err)\<close> is a pair; a
  \<^verbatim>\<open>nil\<close> interface value or a \<^verbatim>\<open>nil\<close> error is \<open>None\<close>.
\<close>

record 'a CommitmentScheme =
  Commit :: "'a list \<Rightarrow> Digest option \<times> error option"
  BatchOpenSinglePoint ::
    "'a \<Rightarrow> Digest option list \<Rightarrow> 'a list list \<Rightarrow> BatchOpeningProofSinglePoint option \<times> error option"
  Open :: "'a \<Rightarrow> 'a list \<Rightarrow> OpeningProof option \<times> error option"

text \<open>
  \<^verbatim>\<open>PublicRaw\<close> (declared in \<^verbatim>\<open>setup.go\<close>). The polynomials are the contents of
  the slices the struct holds.
\<close>

record 'a PublicRaw =
  CommitmentScheme :: "'a CommitmentScheme"
  Ql :: "'a list"
  Qr :: "'a list"
  Qm :: "'a list"
  Qo :: "'a list"
  Qk :: "'a list"
  DomainNum :: "'a Domain"
  DomainH :: "'a Domain"
  Shifter :: "'a \<times> 'a"
  LS1 :: "'a list"
  LS2 :: "'a list"
  LS3 :: "'a list"
  CS1 :: "'a list"
  CS2 :: "'a list"
  CS3 :: "'a list"

text \<open>
  A term of a sparse constraint: the prover reads its \<^verbatim>\<open>VariableID()\<close> only.
\<close>

record Term =
  VariableID :: nat

record SparseR1C =
  termL :: Term
  termR :: Term
  termO :: Term

text \<open>The fields of \<^verbatim>\<open>cs.SparseR1CS\<close> that the prover reads.\<close>

record SparseR1CS =
  NbPublicVariables :: nat
  Constraints :: "SparseR1C list"
  Assertions :: "SparseR1C list"

record 'a ProofRaw =
  LROZH :: "'a list"
  ZShift :: 'a
  CommitmentsLROZH :: "Digest option list"
  BatchOpenings :: "BatchOpeningProofSinglePoint option"
  OpeningZShift :: "OpeningProof option"

subsection \<open>The store\<close>

text \<open>
  Slices are references. A reference is either one of the slices held by the
  \<^verbatim>\<open>PublicRaw\<close> the prover was given, or the address of an array allocated by
  \<^verbatim>\<open>make\<close>. An in-place transform of a slice of \<^verbatim>\<open>PublicRaw\<close> changes \<open>pub\<close>.
\<close>

datatype pubslice = PQl | PQr | PQm | PQo | PQk | PLS1 | PLS2 | PLS3 | PCS1 | PCS2 | PCS3

datatype ref = Pub pubslice | Loc nat

text \<open>
  The Fiat-Shamir transcript is an object of the store too. Its state is the
  sequence of the calls made on it so far, the constructor first; what a call
  answers is a function of that sequence (\<open>BindResult\<close> and \<open>ChallengeResult\<close>
  below), which covers every deterministic implementation of the transcript.
\<close>

datatype hash_id = SHA256

datatype event =
  NewTranscript hash_id "string list"
| Bind string "byte list"
| ComputeChallenge string

record 'a state =
  pub :: "'a PublicRaw"
  heap :: "nat \<Rightarrow> 'a list"
  nxt :: nat
  transcript :: "event list"

text \<open>
  The collaborators that are not interface values of \<^verbatim>\<open>PublicRaw\<close>:
  \<^item> \<^verbatim>\<open>domain.FFT(buf, fft.DIF, c)\<close> and \<^verbatim>\<open>domain.FFTInverse(buf, fft.DIF, c)\<close>
    transform \<open>buf\<close> in place: \<open>FFT\<close> and \<open>FFTInverse\<close> give the new contents of
    \<open>buf\<close> from the domain, the old contents and the coset exponent \<open>c\<close> (the
    decimation is \<^verbatim>\<open>fft.DIF\<close> at every call); \<^verbatim>\<open>fft.BitReverse(buf)\<close> likewise;
  \<^item> \<^verbatim>\<open>p.Eval(&x)\<close> of a polynomial and \<^verbatim>\<open>SetBytes\<close> of a field element;
  \<^item> \<^verbatim>\<open>spr.Solve(witness)\<close>, which returns a solution and an error;
  \<^item> \<^verbatim>\<open>fs.Bind(label, data)\<close> and \<^verbatim>\<open>fs.ComputeChallenge(label)\<close>, as functions of
    the calls made on the transcript before.
\<close>

record 'a externals =
  FFT :: "'a Domain \<Rightarrow> 'a list \<Rightarrow> nat \<Rightarrow> 'a list"
  FFTInverse :: "'a Domain \<Rightarrow> 'a list \<Rightarrow> nat \<Rightarrow> 'a list"
  BitReverse :: "'a list \<Rightarrow> 'a list"
  Eval :: "'a list \<Rightarrow> 'a \<Rightarrow> 'a"
  SetBytes :: "byte list \<Rightarrow> 'a"
  Solve :: "SparseR1CS \<Rightarrow> 'a list \<Rightarrow> 'a list \<times> error option"
  BindResult :: "event list \<Rightarrow> string \<Rightarrow> byte list \<Rightarrow> error option"
  ChallengeResult :: "event list \<Rightarrow> string \<Rightarrow> byte list \<times> error option"

fun pub_get :: "pubslice \<Rightarrow> 'a PublicRaw \<Rightarrow> 'a list" where
  "pub_get PQl p = Ql p"
| "pub_get PQr p = Qr p"
| "pub_get PQm p = Qm p"
| "pub_get PQo p = Qo p"
| "pub_get PQk p = Qk p"
| "pub_get PLS1 p = LS1 p"
| "pub_get PLS2 p = LS2 p"
| "pub_get PLS3 p = LS3 p"
| "pub_get PCS1 p = CS1 p"
| "pub_get PCS2 p = CS2 p"
| "pub_get PCS3 p = CS3 p"

fun pub_set :: "pubslice \<Rightarrow> 'a list \<Rightarrow> 'a PublicRaw \<Rightarrow> 'a PublicRaw" where
  "pub_set PQl v p = p\<lparr>Ql := v\<rparr>"
| "pub_set PQr v p = p\<lparr>Qr := v\<rparr>"
| "pub_set PQm v p = p\<lparr>Qm := v\<rparr>"
| "pub_set PQo v p = p\<lparr>Qo := v\<rparr>"
| "pub_set PQk v p = p\<lparr>Qk := v\<rparr>"
| "pub_set PLS1 v p = p\<lparr>LS1 := v\<rparr>"
| "pub_set PLS2 v p = p\<lparr>LS2 := v\<rparr>"
| "pub_set PLS3 v p = p\<lparr>LS3 := v\<rparr>"
| "pub_set PCS1 v p = p\<lparr>CS1 := v\<rparr>"
| "pub_set PCS2 v p = p\<lparr>CS2 := v\<rparr>"
| "pub_set PCS3 v p = p\<lparr>CS3 := v\<rparr>"

fun deref :: "'a state \<Rightarrow> ref \<Rightarrow> 'a list" where
  "deref s (Pub f) = pub_get f (pub s)"
| "deref s (Loc a) = heap s a"

fun assign :: "ref \<Rightarrow> 'a list \<Rightarrow> 'a state \<Rightarrow> 'a state" where
  "assign (Pub f) v s = s\<lparr>pub := pub_set f v (pub s)\<rparr>"
| "assign (Loc a) v s = s\<lparr>heap := (heap s)(a := v)\<rparr>"

text \<open>\<^verbatim>\<open>make([]fr.Element, n)\<close>: a new array of \<open>n\<close> zeros.\<close>

definition makeSlice :: "nat \<Rightarrow> 'a::zero state \<Rightarrow> ref \<times> 'a state" where
  "makeSlice n s = (Loc (nxt s), s\<lparr>heap := (heap s)(nxt s := replicate n 0), nxt := Suc (nxt s)\<rparr>)"

text \<open>\<^verbatim>\<open>copy(dst, v)\<close> where \<open>v\<close> is the contents of the source slice.\<close>

definition copy :: "ref \<Rightarrow> 'a list \<Rightarrow> 'a state \<Rightarrow> 'a state" where
  "copy dst v s = assign dst (copy_slice (deref s dst) v) s"

text \<open>An in-place transform \<open>f\<close> of the array behind \<open>r\<close>.\<close>

definition inplace :: "('a list \<Rightarrow> 'a list) \<Rightarrow> ref \<Rightarrow> 'a state \<Rightarrow> 'a state" where
  "inplace f r s = assign r (f (deref s r)) s"

text \<open>A reference the program can hold in state \<open>s\<close>: its array exists.\<close>

definition allocated :: "'a state \<Rightarrow> ref \<Rightarrow> bool" where
  "allocated s r = (case r of Pub f \<Rightarrow> True | Loc a \<Rightarrow> a < nxt s)"

subsection \<open>The functions of prove.go\<close>

text \<open>
  Every function takes the store and returns the new store with its results, or
  \<open>None\<close> when it panics. The parameter \<^verbatim>\<open>publicData\<close> of the Go functions is the
  component \<open>pub\<close> of the store. Inside a loop the arrays the loop writes are
  carried as lists and stored back after the loop; the arrays it only reads are
  different arrays, allocated before.
\<close>

definition ComputeLRO ::
  "SparseR1CS \<Rightarrow> 'a::zero list \<Rightarrow> 'a state \<Rightarrow> ((ref \<times> ref \<times> ref \<times> ref) \<times> 'a state) option" where
  "ComputeLRO spr solution s0 = do {
     let sz = Cardinality (DomainNum (pub s0));
     let (l, s) = makeSlice sz s0;
     let (r, s) = makeSlice sz s;
     let (o', s) = makeSlice sz s;
     let (partialL, s) = makeSlice sz s;
     (vl, vr, vo) \<leftarrow> for_loop 0 (NbPublicVariables spr)
        (\<lambda>i (vl, vr, vo). do {
           x \<leftarrow> get_at solution i; vl \<leftarrow> set_at vl i x;
           x \<leftarrow> get_at solution 0; vr \<leftarrow> set_at vr i x;
           x \<leftarrow> get_at solution 0; vo \<leftarrow> set_at vo i x;
           Some (vl, vr, vo) })
        (deref s l, deref s r, deref s o');
     let offset = NbPublicVariables spr;
     (vl, vr, vo, vp) \<leftarrow> for_loop 0 (length (Constraints spr))
        (\<lambda>i (vl, vr, vo, vp). do {
           c \<leftarrow> get_at (Constraints spr) i;
           x \<leftarrow> get_at solution (VariableID (termL c)); vl \<leftarrow> set_at vl (offset + i) x;
           x \<leftarrow> get_at solution (VariableID (termR c)); vr \<leftarrow> set_at vr (offset + i) x;
           x \<leftarrow> get_at solution (VariableID (termO c)); vo \<leftarrow> set_at vo (offset + i) x;
           x \<leftarrow> get_at vl (offset + i); vp \<leftarrow> set_at vp (offset + i) x;
           Some (vl, vr, vo, vp) })
        (vl, vr, vo, deref s partialL);
     let offset = offset + length (Constraints spr);
     (vl, vr, vo, vp) \<leftarrow> for_loop 0 (length (Assertions spr))
        (\<lambda>i (vl, vr, vo, vp). do {
           c \<leftarrow> get_at (Assertions spr) i;
           x \<leftarrow> get_at solution (VariableID (termL c)); vl \<leftarrow> set_at vl (offset + i) x;
           x \<leftarrow> get_at solution (VariableID (termR c)); vr \<leftarrow> set_at vr (offset + i) x;
           x \<leftarrow> get_at solution (VariableID (termO c)); vo \<leftarrow> set_at vo (offset + i) x;
           x \<leftarrow> get_at vl (offset + i); vp \<leftarrow> set_at vp (offset + i) x;
           Some (vl, vr, vo, vp) })
        (vl, vr, vo, vp);
     let offset = offset + length (Assertions spr);
     (vl, vr, vo, vp) \<leftarrow> for_loop 0 (sz - offset)
        (\<lambda>i (vl, vr, vo, vp). do {
           x \<leftarrow> get_at solution 0; vl \<leftarrow> set_at vl (offset + i) x;
           x \<leftarrow> get_at solution 0; vr \<leftarrow> set_at vr (offset + i) x;
           x \<leftarrow> get_at solution 0; vo \<leftarrow> set_at vo (offset + i) x;
           x \<leftarrow> get_at vl (offset + i); vp \<leftarrow> set_at vp (offset + i) x;
           Some (vl, vr, vo, vp) })
        (vl, vr, vo, vp);
     let s = assign l vl s;
     let s = assign r vr s;
     let s = assign o' vo s;
     let s = assign partialL vp s;
     Some ((l, r, o', partialL), s)
   }"

definition ComputeZ ::
  "ref \<Rightarrow> ref \<Rightarrow> ref \<Rightarrow> 'a::field \<Rightarrow> 'a state \<Rightarrow> (ref \<times> 'a state) option" where
  "ComputeZ l r o' gamma s0 = do {
     let (z, s) = makeSlice (Cardinality (DomainNum (pub s0))) s0;
     let nbElmts = Cardinality (DomainNum (pub s));
     let u = (1, fst (Shifter (pub s)), snd (Shifter (pub s)));
     vz \<leftarrow> set_at (deref s z) 0 1;
     (vz, u) \<leftarrow> for_loop 0 (nbElmts - 1)
        (\<lambda>i (vz, u0, u1, u2). do {
           li \<leftarrow> get_at (deref s l) i;
           ri \<leftarrow> get_at (deref s r) i;
           oi \<leftarrow> get_at (deref s o') i;
           let f0 = li + u0 + gamma;
           let f1 = ri + u1 + gamma;
           let f2 = oi + u2 + gamma;
           s1 \<leftarrow> get_at (LS1 (pub s)) i;
           s2 \<leftarrow> get_at (LS2 (pub s)) i;
           s3 \<leftarrow> get_at (LS3 (pub s)) i;
           let g0 = li + s1 + gamma;
           let g1 = ri + s2 + gamma;
           let g2 = oi + s3 + gamma;
           let f0 = f0 * f1 * f2;
           let g0 = g0 * g1 * g2;
           zi \<leftarrow> get_at vz i;
           vz \<leftarrow> set_at vz (i + 1) (zi * f0);
           zi1 \<leftarrow> get_at vz (i + 1);
           vz \<leftarrow> set_at vz (i + 1) (zi1 / g0);
           let w = Generator (DomainNum (pub s));
           Some (vz, u0 * w, u1 * w, u2 * w) })
        (vz, u);
     Some (z, assign z vz s)
   }"

definition evaluateCosets ::
  "'a::zero externals \<Rightarrow> ref \<Rightarrow> ref \<Rightarrow> 'a Domain \<Rightarrow> 'a state \<Rightarrow> 'a state option" where
  "evaluateCosets X poly res domain s0 = do {
     let (e0, s) = makeSlice (Cardinality domain) s0;
     let (e1, s) = makeSlice (Cardinality domain) s;
     let (e2, s) = makeSlice (Cardinality domain) s;
     let (e3, s) = makeSlice (Cardinality domain) s;
     let s = copy e0 (deref s poly) s;
     let s = copy e1 (deref s poly) s;
     let s = copy e2 (deref s poly) s;
     let s = copy e3 (deref s poly) s;
     let s = inplace (\<lambda>b. FFT X domain b 1) e0 s;
     let s = inplace (\<lambda>b. FFT X domain b 3) e1 s;
     let s = inplace (\<lambda>b. FFT X domain b 5) e2 s;
     let s = inplace (\<lambda>b. FFT X domain b 7) e3 s;
     let s = inplace (BitReverse X) e0 s;
     let s = inplace (BitReverse X) e1 s;
     let s = inplace (BitReverse X) e2 s;
     let s = inplace (BitReverse X) e3 s;
     vres \<leftarrow> for_loop 0 (Cardinality domain)
        (\<lambda>i vres. do {
           x \<leftarrow> get_at (deref s e0) i; vres \<leftarrow> set_at vres (4 * i) x;
           x \<leftarrow> get_at (deref s e1) i; vres \<leftarrow> set_at vres (4 * i + 1) x;
           x \<leftarrow> get_at (deref s e2) i; vres \<leftarrow> set_at vres (4 * i + 2) x;
           x \<leftarrow> get_at (deref s e3) i; vres \<leftarrow> set_at vres (4 * i + 3) x;
           Some vres })
        (deref s res);
     Some (assign res vres s)
   }"

definition evalConstraints ::
  "'a::field externals \<Rightarrow> ref \<Rightarrow> ref \<Rightarrow> ref \<Rightarrow> 'a state \<Rightarrow> (ref \<times> 'a state) option" where
  "evalConstraints X evalL evalR evalO s0 = do {
     let n4 = 4 * Cardinality (DomainNum (pub s0));
     let (res, s) = makeSlice n4 s0;
     let (evalQl, s) = makeSlice n4 s;
     let (evalQr, s) = makeSlice n4 s;
     let (evalQm, s) = makeSlice n4 s;
     let (evalQo, s) = makeSlice n4 s;
     let (evalQk, s) = makeSlice n4 s;
     s \<leftarrow> evaluateCosets X (Pub PQl) evalQl (DomainNum (pub s)) s;
     s \<leftarrow> evaluateCosets X (Pub PQr) evalQr (DomainNum (pub s)) s;
     s \<leftarrow> evaluateCosets X (Pub PQm) evalQm (DomainNum (pub s)) s;
     s \<leftarrow> evaluateCosets X (Pub PQo) evalQo (DomainNum (pub s)) s;
     s \<leftarrow> evaluateCosets X (Pub PQk) evalQk (DomainNum (pub s)) s;
     vres \<leftarrow> for_loop 0 (4 * Cardinality (DomainNum (pub s)))
        (\<lambda>i vres. do {
           ql \<leftarrow> get_at (deref s evalQl) i; l \<leftarrow> get_at (deref s evalL) i;
           let acc = ql * l;
           qr \<leftarrow> get_at (deref s evalQr) i; r \<leftarrow> get_at (deref s evalR) i;
           let buf = qr * r;
           let acc = acc + buf;
           qm \<leftarrow> get_at (deref s evalQm) i;
           let buf = qm * l * r;
           let acc = acc + buf;
           qo \<leftarrow> get_at (deref s evalQo) i; o' \<leftarrow> get_at (deref s evalO) i;
           let buf = qo * o';
           let acc = acc + buf;
           qk \<leftarrow> get_at (deref s evalQk) i;
           set_at vres i (acc + qk) })
        (deref s res);
     Some (res, assign res vres s)
   }"

definition evalIDCosets :: "'a::field state \<Rightarrow> ((ref \<times> ref \<times> ref) \<times> 'a state) option" where
  "evalIDCosets s0 = do {
     let n4 = 4 * Cardinality (DomainNum (pub s0));
     let (idc, s) = makeSlice n4 s0;
     let c = Cardinality (DomainNum (pub s));
     vid \<leftarrow> set_at (deref s idc) 0 1;
     vid \<leftarrow> set_at vid 1 1;
     vid \<leftarrow> set_at vid 2 1;
     vid \<leftarrow> set_at vid 3 1;
     vid \<leftarrow> for_loop 1 c
        (\<lambda>i vid. do {
           p \<leftarrow> get_at vid (4 * (i - 1));
           vid \<leftarrow> set_at vid (4 * i) (p * Generator (DomainNum (pub s)));
           x \<leftarrow> get_at vid (4 * i); vid \<leftarrow> set_at vid (4 * i + 1) x;
           x \<leftarrow> get_at vid (4 * i); vid \<leftarrow> set_at vid (4 * i + 2) x;
           x \<leftarrow> get_at vid (4 * i); vid \<leftarrow> set_at vid (4 * i + 3) x;
           Some vid })
        vid;
     let uu = FinerGenerator (DomainNum (pub s)) * FinerGenerator (DomainNum (pub s));
     let u0 = FinerGenerator (DomainNum (pub s));
     let u1 = u0 * uu;
     let u2 = u1 * uu;
     let u3 = u2 * uu;
     let (uid, s) = makeSlice n4 s;
     let (uuid, s) = makeSlice n4 s;
     (vid, vuid, vuuid) \<leftarrow> for_loop 0 c
        (\<lambda>i (vid, vuid, vuuid). do {
           x \<leftarrow> get_at vid (4 * i); vid \<leftarrow> set_at vid (4 * i) (x * u0);
           x \<leftarrow> get_at vid (4 * i + 1); vid \<leftarrow> set_at vid (4 * i + 1) (x * u1);
           x \<leftarrow> get_at vid (4 * i + 2); vid \<leftarrow> set_at vid (4 * i + 2) (x * u2);
           x \<leftarrow> get_at vid (4 * i + 3); vid \<leftarrow> set_at vid (4 * i + 3) (x * u3);
           x \<leftarrow> get_at vid (4 * i); vuid \<leftarrow> set_at vuid (4 * i) (x * fst (Shifter (pub s)));
           x \<leftarrow> get_at vid (4 * i + 1); vuid \<leftarrow> set_at vuid (4 * i + 1) (x * fst (Shifter (pub s)));
           x \<leftarrow> get_at vid (4 * i + 2); vuid \<leftarrow> set_at vuid (4 * i + 2) (x * fst (Shifter (pub s)));
           x \<leftarrow> get_at vid (4 * i + 3); vuid \<leftarrow> set_at vuid (4 * i + 3) (x * fst (Shifter (pub s)));
           x \<leftarrow> get_at vid (4 * i); vuuid \<leftarrow> set_at vuuid (4 * i) (x * snd (Shifter (pub s)));
           x \<leftarrow> get_at vid (4 * i + 1); vuuid \<leftarrow> set_at vuuid (4 * i + 1) (x * snd (Shifter (pub s)));
           x \<leftarrow> get_at vid (4 * i + 2); vuuid \<leftarrow> set_at vuuid (4 * i + 2) (x * snd (Shifter (pub s)));
           x \<leftarrow> get_at vid (4 * i + 3); vuuid \<leftarrow> set_at vuuid (4 * i + 3) (x * snd (Shifter (pub s)));
           Some (vid, vuid, vuuid) })
        (vid, deref s uid, deref s uuid);
     let s = assign idc vid s;
     let s = assign uid vuid s;
     let s = assign uuid vuuid s;
     Some ((idc, uid, uuid), s)
   }"

definition evalConstraintOrdering ::
  "'a::field externals \<Rightarrow> ref \<Rightarrow> ref \<Rightarrow> ref \<Rightarrow> ref \<Rightarrow> ref \<Rightarrow> 'a \<Rightarrow> 'a state
     \<Rightarrow> (ref \<times> 'a state) option" where
  "evalConstraintOrdering X evalZ evalZu evalL evalR evalO gamma s0 = do {
     let n4 = 4 * Cardinality (DomainNum (pub s0));
     let (evalS1, s) = makeSlice n4 s0;
     let (evalS2, s) = makeSlice n4 s;
     let (evalS3, s) = makeSlice n4 s;
     s \<leftarrow> evaluateCosets X (Pub PCS1) evalS1 (DomainNum (pub s)) s;
     s \<leftarrow> evaluateCosets X (Pub PCS2) evalS2 (DomainNum (pub s)) s;
     s \<leftarrow> evaluateCosets X (Pub PCS3) evalS3 (DomainNum (pub s)) s;
     ((evalID, evaluID, evaluuID), s) \<leftarrow> evalIDCosets s;
     let (res, s) = makeSlice (4 * Cardinality (DomainNum (pub s))) s;
     vres \<leftarrow> for_loop 0 (4 * Cardinality (DomainNum (pub s)))
        (\<lambda>i vres. do {
           l \<leftarrow> get_at (deref s evalL) i; idc \<leftarrow> get_at (deref s evalID) i;
           let f0 = l + idc + gamma;
           r \<leftarrow> get_at (deref s evalR) i; uid \<leftarrow> get_at (deref s evaluID) i;
           let f1 = r + uid + gamma;
           o' \<leftarrow> get_at (deref s evalO) i; uuid \<leftarrow> get_at (deref s evaluuID) i;
           let f2 = o' + uuid + gamma;
           s1 \<leftarrow> get_at (deref s evalS1) i;
           let g0 = l + s1 + gamma;
           s2 \<leftarrow> get_at (deref s evalS2) i;
           let g1 = r + s2 + gamma;
           s3 \<leftarrow> get_at (deref s evalS3) i;
           let g2 = o' + s3 + gamma;
           zi \<leftarrow> get_at (deref s evalZ) i;
           let f0 = f0 * f1 * f2 * zi;
           zui \<leftarrow> get_at (deref s evalZu) i;
           let g0 = g0 * g1 * g2 * zui;
           set_at vres i (g0 - f0) })
        (deref s res);
     Some (res, assign res vres s)
   }"

definition evalStartsAtOne ::
  "'a::field externals \<Rightarrow> ref \<Rightarrow> 'a state \<Rightarrow> (ref \<times> 'a state) option" where
  "evalStartsAtOne X evalZ s0 = do {
     let (lOneLagrange, s) = makeSlice (Cardinality (DomainNum (pub s0))) s0;
     v \<leftarrow> set_at (deref s lOneLagrange) 0 1;
     let s = assign lOneLagrange v s;
     let s = inplace (\<lambda>b. FFTInverse X (DomainNum (pub s)) b 0) lOneLagrange s;
     let s = inplace (BitReverse X) lOneLagrange s;
     let (res, s) = makeSlice (4 * Cardinality (DomainNum (pub s))) s;
     s \<leftarrow> evaluateCosets X lOneLagrange res (DomainNum (pub s)) s;
     vres \<leftarrow> for_loop 0 (4 * Cardinality (DomainNum (pub s)))
        (\<lambda>i vres. do {
           zi \<leftarrow> get_at (deref s evalZ) i;
           let buf = zi - 1;
           x \<leftarrow> get_at vres i;
           set_at vres i (buf * x) })
        (deref s res);
     Some (res, assign res vres s)
   }"

subsection \<open>shiftZ\<close>

definition shiftZ :: "ref \<Rightarrow> 'a::zero state \<Rightarrow> (ref \<times> 'a state) option" where
  "shiftZ z s0 = do {
     let (res, s) = makeSlice (length (deref s0 z)) s0;
     let s = copy res (deref s z) s;
     buf \<leftarrow> get_at (deref s res) 0;
     r \<leftarrow> for_loop 0 (length (deref s res) - 1)
            (\<lambda>i r. do { v \<leftarrow> get_at r (i + 1); set_at r i v }) (deref s res);
     r \<leftarrow> set_at r (length r - 1) buf;
     Some (res, assign res r s)
   }"

definition computeH ::
  "'a::field externals \<Rightarrow> ref \<Rightarrow> ref \<Rightarrow> ref \<Rightarrow> 'a \<Rightarrow> 'a state
     \<Rightarrow> ((ref \<times> ref \<times> ref) \<times> 'a state) option" where
  "computeH X constraintsInd constraintOrdering startsAtOne alpha s0 = do {
     let (h, s) = makeSlice (Cardinality (DomainH (pub s0))) s0;
     let bExpo = Cardinality (DomainNum (pub s));
     let one = 1;
     let uu = FinerGenerator (DomainNum (pub s)) * FinerGenerator (DomainNum (pub s));
     let u0 = FinerGenerator (DomainNum (pub s));
     let u1 = u0 * uu;
     let u2 = u1 * uu;
     let u3 = u2 * uu;
     let u0 = inverse (u0 ^ bExpo - one);
     let u1 = inverse (u1 ^ bExpo - one);
     let u2 = inverse (u2 ^ bExpo - one);
     let u3 = inverse (u3 ^ bExpo - one);
     vh \<leftarrow> for_loop 0 (4 * Cardinality (DomainNum (pub s)))
        (\<lambda>i vh. do {
           so \<leftarrow> get_at (deref s startsAtOne) i;
           co \<leftarrow> get_at (deref s constraintOrdering) i;
           ci \<leftarrow> get_at (deref s constraintsInd) i;
           set_at vh i ((so * alpha + co) * alpha + ci) })
        (deref s h);
     vh \<leftarrow> for_loop 0 (Cardinality (DomainNum (pub s)))
        (\<lambda>i vh. do {
           x \<leftarrow> get_at vh (4 * i); vh \<leftarrow> set_at vh (4 * i) (x * u0);
           x \<leftarrow> get_at vh (4 * i + 1); vh \<leftarrow> set_at vh (4 * i + 1) (x * u1);
           x \<leftarrow> get_at vh (4 * i + 2); vh \<leftarrow> set_at vh (4 * i + 2) (x * u2);
           x \<leftarrow> get_at vh (4 * i + 3); vh \<leftarrow> set_at vh (4 * i + 3) (x * u3);
           Some vh })
        vh;
     let s = assign h vh s;
     let s = inplace (\<lambda>b. FFTInverse X (DomainH (pub s)) b 1) h s;
     let s = inplace (BitReverse X) h s;
     let m = Cardinality (DomainNum (pub s));
     let (h1, s) = makeSlice m s;
     let (h2, s) = makeSlice m s;
     let (h3, s) = makeSlice m s;
     v \<leftarrow> slice (deref s h) 0 m;
     let s = copy h1 v s;
     v \<leftarrow> slice (deref s h) m (2 * m);
     let s = copy h2 v s;
     v \<leftarrow> slice (deref s h) (2 * m) (3 * m);
     let s = copy h3 v s;
     Some ((h1, h2, h3), s)
   }"

subsection \<open>The transcript and the digests\<close>

definition newTranscript :: "hash_id \<Rightarrow> string list \<Rightarrow> 'a state \<Rightarrow> 'a state" where
  "newTranscript h labels s = s\<lparr>transcript := [NewTranscript h labels]\<rparr>"

definition fsBind ::
  "'a externals \<Rightarrow> string \<Rightarrow> byte list \<Rightarrow> 'a state \<Rightarrow> error option \<times> 'a state" where
  "fsBind X label data s =
     (BindResult X (transcript s) label data, s\<lparr>transcript := transcript s @ [Bind label data]\<rparr>)"

definition fsComputeChallenge ::
  "'a externals \<Rightarrow> string \<Rightarrow> 'a state \<Rightarrow> (byte list \<times> error option) \<times> 'a state" where
  "fsComputeChallenge X label s =
     (ChallengeResult X (transcript s) label, s\<lparr>transcript := transcript s @ [ComputeChallenge label]\<rparr>)"

text \<open>\<^verbatim>\<open>d.Marshal()\<close>; on a \<^verbatim>\<open>nil\<close> digest the call panics.\<close>

definition Marshal :: "Digest option \<Rightarrow> byte list option" where
  "Marshal d = map_option digest_bytes d"

subsection \<open>ProveRaw\<close>

text \<open>
  The result is the pair \<^verbatim>\<open>(proof, err)\<close> that the Go function returns, with the
  store; \<open>None\<close> is a panic.
\<close>

definition ProveRaw ::
  "'a::field externals \<Rightarrow> SparseR1CS \<Rightarrow> 'a list \<Rightarrow> 'a state
     \<Rightarrow> (('a ProofRaw \<times> error option) \<times> 'a state) option" where
  "ProveRaw X spr fullWitness s0 = do {
     let s = newTranscript SHA256 [''gamma'', ''alpha'', ''zeta''] s0;
     let proof = \<lparr>LROZH = replicate 7 0, ZShift = 0, CommitmentsLROZH = replicate 7 None,
                  BatchOpenings = None, OpeningZShift = None\<rparr>;
     let (solution, _) = Solve X spr fullWitness;
     ((ll, lr, lo, partialL), s) \<leftarrow> ComputeLRO spr solution s;
     let (cl, s) = makeSlice (length (deref s ll)) s;
     let (cr, s) = makeSlice (length (deref s lr)) s;
     let (co, s) = makeSlice (length (deref s lo)) s;
     let s = copy cl (deref s ll) s;
     let s = copy cr (deref s lr) s;
     let s = copy co (deref s lo) s;
     let s = inplace (\<lambda>b. FFTInverse X (DomainNum (pub s)) b 0) cl s;
     let s = inplace (\<lambda>b. FFTInverse X (DomainNum (pub s)) b 0) cr s;
     let s = inplace (\<lambda>b. FFTInverse X (DomainNum (pub s)) b 0) co s;
     let s = inplace (\<lambda>b. FFTInverse X (DomainNum (pub s)) b 0) partialL s;
     let s = inplace (BitReverse X) cl s;
     let s = inplace (BitReverse X) cr s;
     let s = inplace (BitReverse X) co s;
     let s = inplace (BitReverse X) partialL s;
     let (d, err) = Commit (CommitmentScheme (pub s)) (deref s cl);
     let proof = proof\<lparr>CommitmentsLROZH := (CommitmentsLROZH proof)[0 := d]\<rparr>;
     if err \<noteq> None then Some ((proof, err), s) else do {
     let (d, err) = Commit (CommitmentScheme (pub s)) (deref s cr);
     let proof = proof\<lparr>CommitmentsLROZH := (CommitmentsLROZH proof)[1 := d]\<rparr>;
     if err \<noteq> None then Some ((proof, err), s) else do {
     let (d, err) = Commit (CommitmentScheme (pub s)) (deref s co);
     let proof = proof\<lparr>CommitmentsLROZH := (CommitmentsLROZH proof)[2 := d]\<rparr>;
     if err \<noteq> None then Some ((proof, err), s) else do {
     data \<leftarrow> Marshal (CommitmentsLROZH proof ! 0);
     let (err, s) = fsBind X ''gamma'' data s;
     if err \<noteq> None then Some ((proof, err), s) else do {
     data \<leftarrow> Marshal (CommitmentsLROZH proof ! 1);
     let (err, s) = fsBind X ''gamma'' data s;
     if err \<noteq> None then Some ((proof, err), s) else do {
     data \<leftarrow> Marshal (CommitmentsLROZH proof ! 2);
     let (err, s) = fsBind X ''gamma'' data s;
     if err \<noteq> None then Some ((proof, err), s) else do {
     let ((bgamma, err), s) = fsComputeChallenge X ''gamma'' s;
     if err \<noteq> None then Some ((proof, err), s) else do {
     let gamma = SetBytes X bgamma;
     (z, s) \<leftarrow> ComputeZ ll lr lo gamma s;
     (zu, s) \<leftarrow> shiftZ z s;
     let (evalL, s) = makeSlice (4 * Cardinality (DomainNum (pub s))) s;
     let (evalR, s) = makeSlice (4 * Cardinality (DomainNum (pub s))) s;
     let (evalO, s) = makeSlice (4 * Cardinality (DomainNum (pub s))) s;
     s \<leftarrow> evaluateCosets X cl evalL (DomainNum (pub s)) s;
     s \<leftarrow> evaluateCosets X cr evalR (DomainNum (pub s)) s;
     s \<leftarrow> evaluateCosets X co evalO (DomainNum (pub s)) s;
     (constraintsInd, s) \<leftarrow> evalConstraints X evalL evalR evalO s;
     let s = inplace (\<lambda>b. FFTInverse X (DomainNum (pub s)) b 0) z s;
     let s = inplace (\<lambda>b. FFTInverse X (DomainNum (pub s)) b 0) zu s;
     let s = inplace (BitReverse X) z s;
     let s = inplace (BitReverse X) zu s;
     let (evalZ, s) = makeSlice (4 * Cardinality (DomainNum (pub s))) s;
     let (evalZu, s) = makeSlice (4 * Cardinality (DomainNum (pub s))) s;
     s \<leftarrow> evaluateCosets X z evalZ (DomainNum (pub s)) s;
     s \<leftarrow> evaluateCosets X zu evalZu (DomainNum (pub s)) s;
     (constraintsOrdering, s) \<leftarrow> evalConstraintOrdering X evalZ evalZu evalL evalR evalO gamma s;
     (startsAtOne, s) \<leftarrow> evalStartsAtOne X evalZ s;
     let (d, err) = Commit (CommitmentScheme (pub s)) (deref s z);
     let proof = proof\<lparr>CommitmentsLROZH := (CommitmentsLROZH proof)[3 := d]\<rparr>;
     if err \<noteq> None then Some ((proof, err), s) else do {
     data \<leftarrow> Marshal (CommitmentsLROZH proof ! 3);
     let (err, s) = fsBind X ''alpha'' data s;
     if err \<noteq> None then Some ((proof, err), s) else do {
     let ((balpha, err), s) = fsComputeChallenge X ''alpha'' s;
     if err \<noteq> None then Some ((proof, err), s) else do {
     let alpha = SetBytes X balpha;
     ((h1, h2, h3), s) \<leftarrow> computeH X constraintsInd constraintsOrdering startsAtOne alpha s;
     let (d, err) = Commit (CommitmentScheme (pub s)) (deref s h1);
     let proof = proof\<lparr>CommitmentsLROZH := (CommitmentsLROZH proof)[4 := d]\<rparr>;
     if err \<noteq> None then Some ((proof, err), s) else do {
     let (d, err) = Commit (CommitmentScheme (pub s)) (deref s h2);
     let proof = proof\<lparr>CommitmentsLROZH := (CommitmentsLROZH proof)[5 := d]\<rparr>;
     if err \<noteq> None then Some ((proof, err), s) else do {
     let (d, err) = Commit (CommitmentScheme (pub s)) (deref s h3);
     let proof = proof\<lparr>CommitmentsLROZH := (CommitmentsLROZH proof)[6 := d]\<rparr>;
     if err \<noteq> None then Some ((proof, err), s) else do {
     data \<leftarrow> Marshal (CommitmentsLROZH proof ! 4);
     let (err, s) = fsBind X ''zeta'' data s;
     if err \<noteq> None then Some ((proof, err), s) else do {
     data \<leftarrow> Marshal (CommitmentsLROZH proof ! 5);
     let (err, s) = fsBind X ''zeta'' data s;
     if err \<noteq> None then Some ((proof, err), s) else do {
     data \<leftarrow> Marshal (CommitmentsLROZH proof ! 6);
     let (err, s) = fsBind X ''zeta'' data s;
     if err \<noteq> None then Some ((proof, err), s) else do {
     let ((bzeta, err), s) = fsComputeChallenge X ''zeta'' s;
     if err \<noteq> None then Some ((proof, err), s) else do {
     let zeta = SetBytes X bzeta;
     let proof = proof\<lparr>LROZH := (LROZH proof)[0 := Eval X (deref s partialL) zeta]\<rparr>;
     let proof = proof\<lparr>LROZH := (LROZH proof)[1 := Eval X (deref s cr) zeta]\<rparr>;
     let proof = proof\<lparr>LROZH := (LROZH proof)[2 := Eval X (deref s co) zeta]\<rparr>;
     let proof = proof\<lparr>LROZH := (LROZH proof)[3 := Eval X (deref s z) zeta]\<rparr>;
     let proof = proof\<lparr>LROZH := (LROZH proof)[4 := Eval X (deref s h1) zeta]\<rparr>;
     let proof = proof\<lparr>LROZH := (LROZH proof)[5 := Eval X (deref s h2) zeta]\<rparr>;
     let proof = proof\<lparr>LROZH := (LROZH proof)[6 := Eval X (deref s h3) zeta]\<rparr>;
     let zzeta = zeta * Generator (DomainNum (pub s));
     let proof = proof\<lparr>ZShift := Eval X (deref s z) zzeta\<rparr>;
     let polynomialsToOpenAtZeta =
       [deref s cl, deref s cr, deref s co, deref s z, deref s h1, deref s h2, deref s h3];
     let (b, err) = BatchOpenSinglePoint (CommitmentScheme (pub s)) zeta (CommitmentsLROZH proof)
                      polynomialsToOpenAtZeta;
     let proof = proof\<lparr>BatchOpenings := b\<rparr>;
     if err \<noteq> None then Some ((proof, err), s) else do {
     let (p, err) = Open (CommitmentScheme (pub s)) zzeta (deref s z);
     let proof = proof\<lparr>OpeningZShift := p\<rparr>;
     if err \<noteq> None then Some ((proof, err), s) else
     Some ((proof, None), s)
     }}}}}}}}}}}}}}}}}}
   }"

subsection \<open>The hint decomposeScalarG1\<close>

text \<open>
  The routines \<^verbatim>\<open>ecc.PrecomputeLattice\<close> and \<^verbatim>\<open>ecc.SplitScalar\<close>; a \<^verbatim>\<open>big.Int\<close> is an
  integer.
\<close>

record 'l ecc =
  PrecomputeLattice :: "int \<Rightarrow> int \<Rightarrow> 'l"
  SplitScalar :: "int \<Rightarrow> 'l \<Rightarrow> int \<times> int"

text \<open>
  The function literal that \<^verbatim>\<open>decomposeScalarG1\<close> hands to \<^verbatim>\<open>emulated.UnwrapHint\<close>. Its
  arguments are the unwrapped inputs and outputs; \<open>outputs\<close> holds pointers to
  distinct integers, and the result is the error, or the values behind
  \<open>outputs\<close> at return.
\<close>

definition decomposeScalarG1_hint ::
  "'l ecc \<Rightarrow> int \<Rightarrow> int list \<Rightarrow> int list \<Rightarrow> error + int list" where
  "decomposeScalarG1_hint E field inputs outputs =
     (if length inputs \<noteq> 3 then Inl ''expecting three inputs''
      else if length outputs \<noteq> 6 then Inl ''expecting six outputs''
      else
        let glvBasis = PrecomputeLattice E (inputs ! 2) (inputs ! 1);
            sp = SplitScalar E (inputs ! 0) glvBasis;
            outputs = outputs[0 := fst sp];
            outputs = outputs[1 := snd sp];
            outputs = outputs[4 := outputs ! 0];
            outputs = outputs[5 := outputs ! 1];
            outputs = outputs[2 := 1];
            outputs = (if sgn (outputs ! 0) = - 1
                       then (outputs[0 := - (outputs ! 0)])[2 := 0] else outputs);
            outputs = outputs[3 := 1];
            outputs = (if sgn (outputs ! 1) = - 1
                       then (outputs[1 := - (outputs ! 1)])[3 := 0] else outputs)
        in Inr outputs)"

text \<open>
  \<^verbatim>\<open>decomposeScalarG1\<close> itself: \<^verbatim>\<open>emulated.UnwrapHint\<close>, a parameter, applied to the
  native inputs and outputs and to the function above.
\<close>

definition decomposeScalarG1 ::
  "(int list \<Rightarrow> int list \<Rightarrow> (int \<Rightarrow> int list \<Rightarrow> int list \<Rightarrow> error + int list) \<Rightarrow> error + int list)
     \<Rightarrow> 'l ecc \<Rightarrow> int \<Rightarrow> int list \<Rightarrow> int list \<Rightarrow> error + int list" where
  "decomposeScalarG1 UnwrapHint E mod' inputs outputs =
     UnwrapHint inputs outputs (decomposeScalarG1_hint E)"


subsection \<open>A small instance\<close>

text \<open>
  An instance over the rationals, used to run the functions: a domain of size
  \<open>2\<close> with generator \<open>- 1\<close>, one public variable and one constraint, and
  collaborators that answer without error. The transforms of this instance leave
  a buffer as it is; no statement below depends on what they compute.
\<close>

definition horner :: "'a::field list \<Rightarrow> 'a \<Rightarrow> 'a" where
  "horner p x = foldr (\<lambda>c acc. c + x * acc) p 0"

definition be_bytes :: "byte list \<Rightarrow> nat" where
  "be_bytes bs = foldl (\<lambda>acc b. 256 * acc + unat b) 0 bs"

definition ex_scheme :: "rat CommitmentScheme" where
  "ex_scheme = \<lparr>
     Commit = (\<lambda>p. (Some (Digest [of_nat (length p)]), None)),
     BatchOpenSinglePoint = (\<lambda>x ds ps. (Some (BatchOpeningProofSinglePoint []), None)),
     Open = (\<lambda>x p. (Some (OpeningProof []), None)) \<rparr>"

definition ex_pub :: "rat PublicRaw" where
  "ex_pub = \<lparr>
     CommitmentScheme = ex_scheme,
     Ql = [0, 1], Qr = [0, 0], Qm = [0, 0], Qo = [0, - 1], Qk = [0, 0],
     DomainNum = \<lparr>Cardinality = 2, Generator = - 1, FinerGenerator = 2\<rparr>,
     DomainH = \<lparr>Cardinality = 8, Generator = 2, FinerGenerator = 2\<rparr>,
     Shifter = (2, 3),
     LS1 = [1, - 1], LS2 = [2, - 2], LS3 = [3, - 3],
     CS1 = [0, 1], CS2 = [0, 2], CS3 = [0, 3] \<rparr>"

text \<open>The store holds three arrays, the wires \<open>L\<close>, \<open>R\<close>, \<open>O\<close> of the two rows.\<close>

definition ex_state :: "rat state" where
  "ex_state = \<lparr>
     pub = ex_pub,
     heap = (\<lambda>a. [])(0 := [1, 3], 1 := [1, 5], 2 := [1, 3]),
     nxt = 3,
     transcript = [] \<rparr>"

definition ex_spr :: SparseR1CS where
  "ex_spr = \<lparr>
     NbPublicVariables = 1,
     Constraints = [\<lparr>termL = \<lparr>VariableID = 1\<rparr>, termR = \<lparr>VariableID = 2\<rparr>,
                     termO = \<lparr>VariableID = 3\<rparr>\<rparr>],
     Assertions = [] \<rparr>"

definition ex_witness :: "rat list" where
  "ex_witness = [1, 3, 5, 3]"

text \<open>
  The solver of \<open>ex_externals e\<close> returns the witness as the solution, and the
  error \<open>e\<close>.
\<close>

definition ex_externals :: "error option \<Rightarrow> rat externals" where
  "ex_externals e = \<lparr>
     FFT = (\<lambda>d b c. b),
     FFTInverse = (\<lambda>d b c. b),
     BitReverse = (\<lambda>b. b),
     Eval = horner,
     SetBytes = (\<lambda>bs. of_nat (be_bytes bs)),
     Solve = (\<lambda>spr w. (w, e)),
     BindResult = (\<lambda>tr label data. None),
     ChallengeResult = (\<lambda>tr label. ([of_nat (length tr)], None)) \<rparr>"

text \<open>What a call that returns a slice left in the array it returned.\<close>

definition returned_slice :: "(ref \<times> 'a state) option \<Rightarrow> 'a list option" where
  "returned_slice res = map_option (\<lambda>(r, s). deref s r) res"

section \<open>Proofs\<close>

subsection \<open>Loops and the store\<close>

lemma for_loop_total:
  assumes "I i s" and "i \<le> n"
    and step: "\<And>j t. i \<le> j \<Longrightarrow> j < n \<Longrightarrow> I j t \<Longrightarrow> \<exists>t'. body j t = Some t' \<and> I (Suc j) t'"
  shows "\<exists>t. for_loop i n body s = Some t \<and> I n t"
  using assms
proof (induction "n - i" arbitrary: i s)
  case 0
  then have "i = n" by simp
  with 0 show ?case by (simp add: for_loop.simps)
next
  case (Suc k)
  then have lt: "i < n" by simp
  from Suc.prems(3)[OF le_refl lt Suc.prems(1)] obtain t' where
    t': "body i s = Some t'" "I (Suc i) t'" by blast
  have "\<exists>t. for_loop (Suc i) n body t' = Some t \<and> I n t"
  proof (rule Suc.hyps(1))
    show "k = n - Suc i" using Suc.hyps(2) by simp
    show "I (Suc i) t'" by (rule t')
    show "Suc i \<le> n" using lt by simp
    show "\<And>j t. Suc i \<le> j \<Longrightarrow> j < n \<Longrightarrow> I j t \<Longrightarrow> \<exists>t'. body j t = Some t' \<and> I (Suc j) t'"
      using Suc.prems(3) by simp
  qed
  then show ?case using lt t' by (subst for_loop.simps) simp
qed

lemma for_loop_partial:
  assumes "for_loop i n body s = Some t" and "I i s" and "i \<le> n"
    and step: "\<And>j u u'. i \<le> j \<Longrightarrow> j < n \<Longrightarrow> I j u \<Longrightarrow> body j u = Some u' \<Longrightarrow> I (Suc j) u'"
  shows "I n t"
  using assms
proof (induction "n - i" arbitrary: i s)
  case 0
  then have "i = n" by simp
  with 0 show ?case by (simp add: for_loop.simps)
next
  case (Suc k)
  then have lt: "i < n" by simp
  from Suc.prems(1) lt obtain s' where
    s': "body i s = Some s'" "for_loop (Suc i) n body s' = Some t"
    by (subst (asm) for_loop.simps) (auto split: option.splits)
  show ?case
  proof (rule Suc.hyps(1)[OF _ s'(2)])
    show "k = n - Suc i" using Suc.hyps(2) by simp
    show "I (Suc i) s'" using Suc.prems(4)[OF le_refl lt Suc.prems(2) s'(1)] .
    show "Suc i \<le> n" using lt by simp
    show "\<And>j u u'. Suc i \<le> j \<Longrightarrow> j < n \<Longrightarrow> I j u \<Longrightarrow> body j u = Some u' \<Longrightarrow> I (Suc j) u'"
      using Suc.prems(4) by simp
  qed
qed


lemma shiftZ_loop:
  assumes "z0 \<noteq> []"
  shows "\<exists>r. for_loop 0 (length z0 - 1) (\<lambda>i r. do { v \<leftarrow> get_at r (i + 1); set_at r i v }) z0 = Some r
     \<and> length r = length z0 \<and> (\<forall>k<length z0 - 1. r ! k = z0 ! (k + 1)) \<and> r ! (length z0 - 1) = z0 ! (length z0 - 1)"
proof -
  define I where "I = (\<lambda>j (r::'a list). length r = length z0 \<and> (\<forall>k<j. r ! k = z0 ! (k + 1))
      \<and> (\<forall>k. j \<le> k \<and> k < length z0 \<longrightarrow> r ! k = z0 ! k))"
  have "\<exists>r. for_loop 0 (length z0 - 1) (\<lambda>i r. do { v \<leftarrow> get_at r (i + 1); set_at r i v }) z0 = Some r
      \<and> I (length z0 - 1) r"
  proof (rule for_loop_total)
    show "I 0 z0" by (simp add: I_def)
    show "0 \<le> length z0 - 1" by simp
    fix j t assume "j < length z0 - 1" "I j t"
    then show "\<exists>t'. do { v \<leftarrow> get_at t (j + 1); set_at t j v } = Some t' \<and> I (Suc j) t'"
      by (auto simp: I_def get_at_def set_at_def nth_list_update less_Suc_eq)
  qed
  then show ?thesis using assms by (auto simp: I_def)
qed

lemma copy_slice_same_length [simp]: "length dst = length src \<Longrightarrow> copy_slice dst src = src"
  by (simp add: copy_slice_def)

lemma length_copy_slice [simp]: "length (copy_slice dst src) = length dst"
  by (simp add: copy_slice_def)

lemma pub_get_set: "pub_get f (pub_set g v p) = (if f = g then v else pub_get f p)"
  by (cases f; cases g; simp)

lemma deref_assign: "deref (assign r v s) r' = (if r' = r then v else deref s r')"
  by (cases r; cases r'; simp add: pub_get_set)

lemma deref_nxt_update [simp]: "deref (nxt_update f s) r = deref s r"
  by (cases r) simp_all

lemma deref_transcript_update [simp]: "deref (transcript_update f s) r = deref s r"
  by (cases r) simp_all

lemma deref_heap_update: "deref (heap_update f s) r = (case r of Loc a \<Rightarrow> f (heap s) a | Pub g \<Rightarrow> deref s r)"
  by (cases r) simp_all

lemma allocated_neq: "allocated s r \<Longrightarrow> r \<noteq> Loc (nxt s)"
  by (auto simp: allocated_def)

lemma deref_make_old: "allocated s r \<Longrightarrow> deref (snd (makeSlice n s)) r = deref s r"
  by (cases r) (auto simp: makeSlice_def allocated_def)

lemma deref_make_new: "deref (snd (makeSlice n s)) (fst (makeSlice n s)) = replicate n 0"
  by (simp add: makeSlice_def)

subsection \<open>shiftZ is a cyclic shift\<close>

text \<open>
  Claim C8. For a polynomial \<open>z\<close> of length \<open>m > 0\<close>, \<^verbatim>\<open>shiftZ\<close> returns a new slice
  \<open>z'\<close> of length \<open>m\<close> with \<open>z'[i] = z[i+1]\<close> for \<open>i < m-1\<close> and
  \<open>z'[m-1] = z[0]\<close>, that is \<open>z'[i] = z[(i+1) mod m]\<close> for every \<open>i < m\<close>, and the array
  behind \<open>z\<close> holds after the call what it held before.
\<close>

theorem shiftZ_cyclic:
  assumes "allocated s z" and "0 < length (deref s z)"
  shows "\<exists>res s'. shiftZ z s = Some (res, s')
     \<and> length (deref s' res) = length (deref s z)
     \<and> (\<forall>i. i < length (deref s z) - 1 \<longrightarrow> deref s' res ! i = deref s z ! (i + 1))
     \<and> deref s' res ! (length (deref s z) - 1) = deref s z ! 0
     \<and> (\<forall>i < length (deref s z). deref s' res ! i = deref s z ! ((i + 1) mod length (deref s z)))
     \<and> deref s' z = deref s z"
proof -
  define z0 where "z0 = deref s z"
  have ne: "z0 \<noteq> []" using assms(2) by (auto simp: z0_def)
  from shiftZ_loop[OF ne] obtain r where
    r: "for_loop 0 (length z0 - 1) (\<lambda>i r. do { v \<leftarrow> get_at r (i + 1); set_at r i v }) z0 = Some r"
       "length r = length z0" "\<forall>k<length z0 - 1. r ! k = z0 ! (k + 1)"
    by blast
  define r' where "r' = r[length r - 1 := z0 ! 0]"
  obtain res s1 where mk: "makeSlice (length z0) s = (res, s1)" by force
  have res: "deref s1 res = replicate (length z0) 0" and old: "deref s1 z = z0" and neq: "z \<noteq> res"
    using deref_make_new[of "length z0" s] deref_make_old[OF assms(1), of "length z0"] mk
      allocated_neq[OF assms(1)]
    by (auto simp: z0_def makeSlice_def)
  define s2 where "s2 = copy res z0 s1"
  have res2: "deref s2 res = z0" and old2: "deref s2 z = z0"
    using res old neq by (simp_all add: s2_def copy_def deref_assign)
  have g: "get_at z0 0 = Some (z0 ! 0)" using ne by (simp add: get_at_def)
  have st: "set_at r (length r - 1) (z0 ! 0) = Some r'" using ne r(2) by (simp add: set_at_def r'_def)
  have run: "shiftZ z s = Some (res, assign res r' s2)"
    using r(1) st unfolding shiftZ_def z0_def[symmetric]
    by (simp add: mk old s2_def[symmetric] res2 g)
  have z': "deref (assign res r' s2) z = z0" and r'': "deref (assign res r' s2) res = r'"
    using old2 neq by (simp_all add: deref_assign)
  have len: "length r' = length z0" by (simp add: r'_def r)
  have a: "\<forall>i. i < length z0 - 1 \<longrightarrow> r' ! i = z0 ! (i + 1)"
    using r by (simp add: r'_def)
  have b: "r' ! (length z0 - 1) = z0 ! 0" using r ne by (simp add: r'_def)
  have c: "\<forall>i < length z0. r' ! i = z0 ! ((i + 1) mod length z0)"
  proof (intro allI impI)
    fix i assume i: "i < length z0"
    show "r' ! i = z0 ! ((i + 1) mod length z0)"
    proof (cases "i < length z0 - 1")
      case True then show ?thesis using a by simp
    next
      case False
      with i have "i = length z0 - 1" by simp
      then show ?thesis using b ne by simp
    qed
  qed
  show ?thesis
    using run z' r'' len a b c unfolding z0_def[symmetric] by simp
qed

subsection \<open>ComputeLRO\<close>

lemma LRO_public_rows:
  fixes sol :: "'a list"
  assumes "nb \<le> length sol" and "0 < length sol" and "nb \<le> m"
    and "length vl0 = m" and "length vr0 = m" and "length vo0 = m"
  shows "\<exists>vl vr vo. for_loop 0 nb
        (\<lambda>i (vl, vr, vo). do {
           x \<leftarrow> get_at sol i; vl \<leftarrow> set_at vl i x;
           x \<leftarrow> get_at sol 0; vr \<leftarrow> set_at vr i x;
           x \<leftarrow> get_at sol 0; vo \<leftarrow> set_at vo i x;
           Some (vl, vr, vo) })
        (vl0, vr0, vo0) = Some (vl, vr, vo)
     \<and> length vl = m \<and> length vr = m \<and> length vo = m
     \<and> (\<forall>k<nb. vl ! k = sol ! k \<and> vr ! k = sol ! 0 \<and> vo ! k = sol ! 0)
     \<and> (\<forall>k. nb \<le> k \<longrightarrow> vl ! k = vl0 ! k \<and> vr ! k = vr0 ! k \<and> vo ! k = vo0 ! k)"
proof -
  define I where "I = (\<lambda>j (t :: 'a list \<times> 'a list \<times> 'a list).
     case t of (vl, vr, vo) \<Rightarrow> length vl = m \<and> length vr = m \<and> length vo = m
     \<and> (\<forall>k<j. vl ! k = sol ! k \<and> vr ! k = sol ! 0 \<and> vo ! k = sol ! 0)
     \<and> (\<forall>k. j \<le> k \<longrightarrow> vl ! k = vl0 ! k \<and> vr ! k = vr0 ! k \<and> vo ! k = vo0 ! k))"
  have "\<exists>t. for_loop 0 nb
        (\<lambda>i (vl, vr, vo). do {
           x \<leftarrow> get_at sol i; vl \<leftarrow> set_at vl i x;
           x \<leftarrow> get_at sol 0; vr \<leftarrow> set_at vr i x;
           x \<leftarrow> get_at sol 0; vo \<leftarrow> set_at vo i x;
           Some (vl, vr, vo) })
        (vl0, vr0, vo0) = Some t \<and> I nb t"
  proof (rule for_loop_total)
    show "I 0 (vl0, vr0, vo0)" using assms by (simp add: I_def)
    show "0 \<le> nb" by simp
    fix j t assume "j < nb" "I j t"
    then show "\<exists>t'. (case t of (vl, vr, vo) \<Rightarrow> do {
           x \<leftarrow> get_at sol j; vl \<leftarrow> set_at vl j x;
           x \<leftarrow> get_at sol 0; vr \<leftarrow> set_at vr j x;
           x \<leftarrow> get_at sol 0; vo \<leftarrow> set_at vo j x;
           Some (vl, vr, vo) }) = Some t' \<and> I (Suc j) t'"
      using assms(1,2,3)
      by (cases t) (auto simp: I_def get_at_def set_at_def nth_list_update less_Suc_eq)
  qed
  then show ?thesis by (auto simp: I_def)
qed

lemma LRO_constraint_rows:
  fixes sol :: "'a list"
  assumes "off + length cs \<le> m"
    and "\<forall>c\<in>set cs. VariableID (termL c) < length sol \<and> VariableID (termR c) < length sol
           \<and> VariableID (termO c) < length sol"
    and "length vl0 = m" and "length vr0 = m" and "length vo0 = m" and "length vp0 = m"
  shows "\<exists>vl vr vo vp. for_loop 0 (length cs)
        (\<lambda>i (vl, vr, vo, vp). do {
           c \<leftarrow> get_at cs i;
           x \<leftarrow> get_at sol (VariableID (termL c)); vl \<leftarrow> set_at vl (off + i) x;
           x \<leftarrow> get_at sol (VariableID (termR c)); vr \<leftarrow> set_at vr (off + i) x;
           x \<leftarrow> get_at sol (VariableID (termO c)); vo \<leftarrow> set_at vo (off + i) x;
           x \<leftarrow> get_at vl (off + i); vp \<leftarrow> set_at vp (off + i) x;
           Some (vl, vr, vo, vp) })
        (vl0, vr0, vo0, vp0) = Some (vl, vr, vo, vp)
     \<and> length vl = m \<and> length vr = m \<and> length vo = m \<and> length vp = m
     \<and> (\<forall>k<length cs. vl ! (off + k) = sol ! VariableID (termL (cs ! k))
            \<and> vr ! (off + k) = sol ! VariableID (termR (cs ! k))
            \<and> vo ! (off + k) = sol ! VariableID (termO (cs ! k))
            \<and> vp ! (off + k) = vl ! (off + k))
     \<and> (\<forall>k. k < off \<or> off + length cs \<le> k \<longrightarrow>
            vl ! k = vl0 ! k \<and> vr ! k = vr0 ! k \<and> vo ! k = vo0 ! k \<and> vp ! k = vp0 ! k)"
proof -
  define I where "I = (\<lambda>j (t :: 'a list \<times> 'a list \<times> 'a list \<times> 'a list).
     case t of (vl, vr, vo, vp) \<Rightarrow>
       length vl = m \<and> length vr = m \<and> length vo = m \<and> length vp = m
     \<and> (\<forall>k<j. vl ! (off + k) = sol ! VariableID (termL (cs ! k))
            \<and> vr ! (off + k) = sol ! VariableID (termR (cs ! k))
            \<and> vo ! (off + k) = sol ! VariableID (termO (cs ! k))
            \<and> vp ! (off + k) = vl ! (off + k))
     \<and> (\<forall>k. k < off \<or> off + j \<le> k \<longrightarrow>
            vl ! k = vl0 ! k \<and> vr ! k = vr0 ! k \<and> vo ! k = vo0 ! k \<and> vp ! k = vp0 ! k))"
  have "\<exists>t. for_loop 0 (length cs)
        (\<lambda>i (vl, vr, vo, vp). do {
           c \<leftarrow> get_at cs i;
           x \<leftarrow> get_at sol (VariableID (termL c)); vl \<leftarrow> set_at vl (off + i) x;
           x \<leftarrow> get_at sol (VariableID (termR c)); vr \<leftarrow> set_at vr (off + i) x;
           x \<leftarrow> get_at sol (VariableID (termO c)); vo \<leftarrow> set_at vo (off + i) x;
           x \<leftarrow> get_at vl (off + i); vp \<leftarrow> set_at vp (off + i) x;
           Some (vl, vr, vo, vp) })
        (vl0, vr0, vo0, vp0) = Some t \<and> I (length cs) t"
  proof (rule for_loop_total)
    show "I 0 (vl0, vr0, vo0, vp0)" using assms by (simp add: I_def)
    show "0 \<le> length cs" by simp
    fix j t assume j: "j < length cs" and inv: "I j t"
    obtain vl vr vo vp where t: "t = (vl, vr, vo, vp)" by (cases t) auto
    have ids: "VariableID (termL (cs ! j)) < length sol" "VariableID (termR (cs ! j)) < length sol"
      "VariableID (termO (cs ! j)) < length sol"
      using assms(2) j by auto
    have oj: "off + j < m" using assms(1) j by simp
    show "\<exists>t'. (case t of (vl, vr, vo, vp) \<Rightarrow> do {
           c \<leftarrow> get_at cs j;
           x \<leftarrow> get_at sol (VariableID (termL c)); vl \<leftarrow> set_at vl (off + j) x;
           x \<leftarrow> get_at sol (VariableID (termR c)); vr \<leftarrow> set_at vr (off + j) x;
           x \<leftarrow> get_at sol (VariableID (termO c)); vo \<leftarrow> set_at vo (off + j) x;
           x \<leftarrow> get_at vl (off + j); vp \<leftarrow> set_at vp (off + j) x;
           Some (vl, vr, vo, vp) }) = Some t' \<and> I (Suc j) t'"
      using inv j ids oj unfolding t
      by (auto simp: I_def get_at_def set_at_def nth_list_update less_Suc_eq)
  qed
  then show ?thesis by (auto simp: I_def)
qed

lemma LRO_padding_rows:
  fixes sol :: "'a list"
  assumes "0 < length sol" and "off + n \<le> m"
    and "length vl0 = m" and "length vr0 = m" and "length vo0 = m" and "length vp0 = m"
  shows "\<exists>vl vr vo vp. for_loop 0 n
        (\<lambda>i (vl, vr, vo, vp). do {
           x \<leftarrow> get_at sol 0; vl \<leftarrow> set_at vl (off + i) x;
           x \<leftarrow> get_at sol 0; vr \<leftarrow> set_at vr (off + i) x;
           x \<leftarrow> get_at sol 0; vo \<leftarrow> set_at vo (off + i) x;
           x \<leftarrow> get_at vl (off + i); vp \<leftarrow> set_at vp (off + i) x;
           Some (vl, vr, vo, vp) })
        (vl0, vr0, vo0, vp0) = Some (vl, vr, vo, vp)
     \<and> length vl = m \<and> length vr = m \<and> length vo = m \<and> length vp = m
     \<and> (\<forall>k<n. vl ! (off + k) = sol ! 0 \<and> vr ! (off + k) = sol ! 0 \<and> vo ! (off + k) = sol ! 0
            \<and> vp ! (off + k) = vl ! (off + k))
     \<and> (\<forall>k. k < off \<or> off + n \<le> k \<longrightarrow>
            vl ! k = vl0 ! k \<and> vr ! k = vr0 ! k \<and> vo ! k = vo0 ! k \<and> vp ! k = vp0 ! k)"
proof -
  define I where "I = (\<lambda>j (t :: 'a list \<times> 'a list \<times> 'a list \<times> 'a list).
     case t of (vl, vr, vo, vp) \<Rightarrow>
       length vl = m \<and> length vr = m \<and> length vo = m \<and> length vp = m
     \<and> (\<forall>k<j. vl ! (off + k) = sol ! 0 \<and> vr ! (off + k) = sol ! 0 \<and> vo ! (off + k) = sol ! 0
            \<and> vp ! (off + k) = vl ! (off + k))
     \<and> (\<forall>k. k < off \<or> off + j \<le> k \<longrightarrow>
            vl ! k = vl0 ! k \<and> vr ! k = vr0 ! k \<and> vo ! k = vo0 ! k \<and> vp ! k = vp0 ! k))"
  have "\<exists>t. for_loop 0 n
        (\<lambda>i (vl, vr, vo, vp). do {
           x \<leftarrow> get_at sol 0; vl \<leftarrow> set_at vl (off + i) x;
           x \<leftarrow> get_at sol 0; vr \<leftarrow> set_at vr (off + i) x;
           x \<leftarrow> get_at sol 0; vo \<leftarrow> set_at vo (off + i) x;
           x \<leftarrow> get_at vl (off + i); vp \<leftarrow> set_at vp (off + i) x;
           Some (vl, vr, vo, vp) })
        (vl0, vr0, vo0, vp0) = Some t \<and> I n t"
  proof (rule for_loop_total)
    show "I 0 (vl0, vr0, vo0, vp0)" using assms by (simp add: I_def)
    show "0 \<le> n" by simp
    fix j t assume j: "j < n" and inv: "I j t"
    obtain vl vr vo vp where t: "t = (vl, vr, vo, vp)" by (cases t) auto
    have oj: "off + j < m" using assms(2) j by simp
    show "\<exists>t'. (case t of (vl, vr, vo, vp) \<Rightarrow> do {
           x \<leftarrow> get_at sol 0; vl \<leftarrow> set_at vl (off + j) x;
           x \<leftarrow> get_at sol 0; vr \<leftarrow> set_at vr (off + j) x;
           x \<leftarrow> get_at sol 0; vo \<leftarrow> set_at vo (off + j) x;
           x \<leftarrow> get_at vl (off + j); vp \<leftarrow> set_at vp (off + j) x;
           Some (vl, vr, vo, vp) }) = Some t' \<and> I (Suc j) t'"
      using inv j oj assms(1) unfolding t
      by (auto simp: I_def get_at_def set_at_def nth_list_update less_Suc_eq)
  qed
  then show ?thesis by (auto simp: I_def)
qed

text \<open>
  Claim C7. On a system that fits the domain (\<open>NbPublicVariables + |Constraints| +
  |Assertions| \<le> m\<close>) and a solution that holds every variable the rows name,
  \<^verbatim>\<open>ComputeLRO\<close> returns four slices \<open>L, R, O, partial_L\<close> of length \<open>m\<close> with:
  on the public rows \<open>L[i] = solution[i]\<close>, \<open>R[i] = O[i] = solution[0]\<close> and
  \<open>partial_L[i] = 0\<close>; on the rows of the constraints and then of the assertions the
  values of the solution at the \<open>L\<close>, \<open>R\<close>, \<open>O\<close> variable of the row, and
  \<open>partial_L[i] = L[i]\<close>; on the rows of the tail \<open>solution[0]\<close> in all three, and
  \<open>partial_L[i] = L[i]\<close>.
\<close>

theorem ComputeLRO_rows:
  fixes solution :: "'a::zero list"
  assumes nb: "nb = NbPublicVariables spr" and cs: "cs = Constraints spr"
    and as: "as = Assertions spr" and m: "m = Cardinality (DomainNum (pub s))"
    and fits: "nb + length cs + length as \<le> m"
    and sol: "nb \<le> length solution" "0 < length solution"
    and ids: "\<forall>c\<in>set cs \<union> set as. VariableID (termL c) < length solution
           \<and> VariableID (termR c) < length solution \<and> VariableID (termO c) < length solution"
  shows "\<exists>l r o' pl s'. ComputeLRO spr solution s = Some ((l, r, o', pl), s')
     \<and> length (deref s' l) = m \<and> length (deref s' r) = m \<and> length (deref s' o') = m
     \<and> length (deref s' pl) = m
     \<and> (\<forall>i<nb. deref s' l ! i = solution ! i \<and> deref s' r ! i = solution ! 0
            \<and> deref s' o' ! i = solution ! 0 \<and> deref s' pl ! i = 0)
     \<and> (\<forall>i<length cs. deref s' l ! (nb + i) = solution ! VariableID (termL (cs ! i))
            \<and> deref s' r ! (nb + i) = solution ! VariableID (termR (cs ! i))
            \<and> deref s' o' ! (nb + i) = solution ! VariableID (termO (cs ! i))
            \<and> deref s' pl ! (nb + i) = deref s' l ! (nb + i))
     \<and> (\<forall>i<length as.
            deref s' l ! (nb + length cs + i) = solution ! VariableID (termL (as ! i))
            \<and> deref s' r ! (nb + length cs + i) = solution ! VariableID (termR (as ! i))
            \<and> deref s' o' ! (nb + length cs + i) = solution ! VariableID (termO (as ! i))
            \<and> deref s' pl ! (nb + length cs + i) = deref s' l ! (nb + length cs + i))
     \<and> (\<forall>i. nb + length cs + length as \<le> i \<and> i < m \<longrightarrow>
            deref s' l ! i = solution ! 0 \<and> deref s' r ! i = solution ! 0
            \<and> deref s' o' ! i = solution ! 0 \<and> deref s' pl ! i = deref s' l ! i)"
proof -
  define zs :: "'a list" where "zs = replicate m 0"
  have lz: "length zs = m" by (simp add: zs_def)
  have nbm: "nb \<le> m" using fits by simp
  from LRO_public_rows[OF sol(1) sol(2) nbm lz lz lz]
  obtain vl1 vr1 vo1 where l1: "for_loop 0 nb
        (\<lambda>i (vl, vr, vo). do {
           x \<leftarrow> get_at solution i; vl \<leftarrow> set_at vl i x;
           x \<leftarrow> get_at solution 0; vr \<leftarrow> set_at vr i x;
           x \<leftarrow> get_at solution 0; vo \<leftarrow> set_at vo i x;
           Some (vl, vr, vo) })
        (zs, zs, zs) = Some (vl1, vr1, vo1)"
    and len1: "length vl1 = m" "length vr1 = m" "length vo1 = m"
    and in1: "\<forall>k<nb. vl1 ! k = solution ! k \<and> vr1 ! k = solution ! 0 \<and> vo1 ! k = solution ! 0"
    and out1: "\<forall>k. nb \<le> k \<longrightarrow> vl1 ! k = zs ! k \<and> vr1 ! k = zs ! k \<and> vo1 ! k = zs ! k"
    by blast
  have ids_cs: "\<forall>c\<in>set cs. VariableID (termL c) < length solution
      \<and> VariableID (termR c) < length solution \<and> VariableID (termO c) < length solution"
    and ids_as: "\<forall>c\<in>set as. VariableID (termL c) < length solution
      \<and> VariableID (termR c) < length solution \<and> VariableID (termO c) < length solution"
    using ids by auto
  have f2: "nb + length cs \<le> m" using fits by simp
  from LRO_constraint_rows[OF f2 ids_cs len1 lz]
  obtain vl2 vr2 vo2 vp2 where l2: "for_loop 0 (length cs)
        (\<lambda>i (vl, vr, vo, vp). do {
           c \<leftarrow> get_at cs i;
           x \<leftarrow> get_at solution (VariableID (termL c)); vl \<leftarrow> set_at vl (nb + i) x;
           x \<leftarrow> get_at solution (VariableID (termR c)); vr \<leftarrow> set_at vr (nb + i) x;
           x \<leftarrow> get_at solution (VariableID (termO c)); vo \<leftarrow> set_at vo (nb + i) x;
           x \<leftarrow> get_at vl (nb + i); vp \<leftarrow> set_at vp (nb + i) x;
           Some (vl, vr, vo, vp) })
        (vl1, vr1, vo1, zs) = Some (vl2, vr2, vo2, vp2)"
    and len2: "length vl2 = m" "length vr2 = m" "length vo2 = m" "length vp2 = m"
    and in2: "\<forall>k<length cs. vl2 ! (nb + k) = solution ! VariableID (termL (cs ! k))
            \<and> vr2 ! (nb + k) = solution ! VariableID (termR (cs ! k))
            \<and> vo2 ! (nb + k) = solution ! VariableID (termO (cs ! k))
            \<and> vp2 ! (nb + k) = vl2 ! (nb + k)"
    and out2: "\<forall>k. k < nb \<or> nb + length cs \<le> k \<longrightarrow>
            vl2 ! k = vl1 ! k \<and> vr2 ! k = vr1 ! k \<and> vo2 ! k = vo1 ! k \<and> vp2 ! k = zs ! k"
    by blast
  have f3: "nb + length cs + length as \<le> m" using fits by simp
  from LRO_constraint_rows[OF f3 ids_as len2]
  obtain vl3 vr3 vo3 vp3 where l3: "for_loop 0 (length as)
        (\<lambda>i (vl, vr, vo, vp). do {
           c \<leftarrow> get_at as i;
           x \<leftarrow> get_at solution (VariableID (termL c)); vl \<leftarrow> set_at vl (nb + length cs + i) x;
           x \<leftarrow> get_at solution (VariableID (termR c)); vr \<leftarrow> set_at vr (nb + length cs + i) x;
           x \<leftarrow> get_at solution (VariableID (termO c)); vo \<leftarrow> set_at vo (nb + length cs + i) x;
           x \<leftarrow> get_at vl (nb + length cs + i); vp \<leftarrow> set_at vp (nb + length cs + i) x;
           Some (vl, vr, vo, vp) })
        (vl2, vr2, vo2, vp2) = Some (vl3, vr3, vo3, vp3)"
    and len3: "length vl3 = m" "length vr3 = m" "length vo3 = m" "length vp3 = m"
    and in3: "\<forall>k<length as. vl3 ! (nb + length cs + k) = solution ! VariableID (termL (as ! k))
            \<and> vr3 ! (nb + length cs + k) = solution ! VariableID (termR (as ! k))
            \<and> vo3 ! (nb + length cs + k) = solution ! VariableID (termO (as ! k))
            \<and> vp3 ! (nb + length cs + k) = vl3 ! (nb + length cs + k)"
    and out3: "\<forall>k. k < nb + length cs \<or> nb + length cs + length as \<le> k \<longrightarrow>
            vl3 ! k = vl2 ! k \<and> vr3 ! k = vr2 ! k \<and> vo3 ! k = vo2 ! k \<and> vp3 ! k = vp2 ! k"
    by blast
  define off where "off = nb + length cs + length as"
  have f4: "off + (m - off) \<le> m" using fits by (simp add: off_def)
  from LRO_padding_rows[OF sol(2) f4 len3]
  obtain vl4 vr4 vo4 vp4 where l4: "for_loop 0 (m - off)
        (\<lambda>i (vl, vr, vo, vp). do {
           x \<leftarrow> get_at solution 0; vl \<leftarrow> set_at vl (off + i) x;
           x \<leftarrow> get_at solution 0; vr \<leftarrow> set_at vr (off + i) x;
           x \<leftarrow> get_at solution 0; vo \<leftarrow> set_at vo (off + i) x;
           x \<leftarrow> get_at vl (off + i); vp \<leftarrow> set_at vp (off + i) x;
           Some (vl, vr, vo, vp) })
        (vl3, vr3, vo3, vp3) = Some (vl4, vr4, vo4, vp4)"
    and len4: "length vl4 = m" "length vr4 = m" "length vo4 = m" "length vp4 = m"
    and in4: "\<forall>k<m - off. vl4 ! (off + k) = solution ! 0 \<and> vr4 ! (off + k) = solution ! 0
            \<and> vo4 ! (off + k) = solution ! 0 \<and> vp4 ! (off + k) = vl4 ! (off + k)"
    and out4: "\<forall>k. k < off \<or> off + (m - off) \<le> k \<longrightarrow>
            vl4 ! k = vl3 ! k \<and> vr4 ! k = vr3 ! k \<and> vo4 ! k = vo3 ! k \<and> vp4 ! k = vp3 ! k"
    by blast
  define n where "n = nxt s"
  define s' where "s' = s\<lparr>heap := (heap s)(n := vl4, Suc n := vr4, Suc (Suc n) := vo4,
      Suc (Suc (Suc n)) := vp4), nxt := Suc (Suc (Suc (Suc n)))\<rparr>"
  have run: "ComputeLRO spr solution s = Some ((Loc n, Loc (Suc n), Loc (Suc (Suc n)),
      Loc (Suc (Suc (Suc n)))), s')"
    using l1 l2 l3 l4
    unfolding ComputeLRO_def nb[symmetric] cs[symmetric] as[symmetric] m[symmetric]
      makeSlice_def off_def zs_def
    by (simp add: Let_def n_def s'_def fun_upd_twist)
  have d: "heap s' n = vl4" "heap s' (Suc n) = vr4"
    "heap s' (Suc (Suc n)) = vo4" "heap s' (Suc (Suc (Suc n))) = vp4"
    by (simp_all add: s'_def)
  have pub_rows: "\<forall>i<nb. vl4 ! i = solution ! i \<and> vr4 ! i = solution ! 0
            \<and> vo4 ! i = solution ! 0 \<and> vp4 ! i = 0"
    using in1 out2 out3 out4 fits by (simp add: off_def zs_def)
  have c_rows: "\<forall>i<length cs. vl4 ! (nb + i) = solution ! VariableID (termL (cs ! i))
            \<and> vr4 ! (nb + i) = solution ! VariableID (termR (cs ! i))
            \<and> vo4 ! (nb + i) = solution ! VariableID (termO (cs ! i))
            \<and> vp4 ! (nb + i) = vl4 ! (nb + i)"
    using in2 out3 out4 by (simp add: off_def)
  have a_rows: "\<forall>i<length as.
            vl4 ! (nb + length cs + i) = solution ! VariableID (termL (as ! i))
            \<and> vr4 ! (nb + length cs + i) = solution ! VariableID (termR (as ! i))
            \<and> vo4 ! (nb + length cs + i) = solution ! VariableID (termO (as ! i))
            \<and> vp4 ! (nb + length cs + i) = vl4 ! (nb + length cs + i)"
    using in3 out4 by (simp add: off_def)
  have p_rows: "\<forall>i. nb + length cs + length as \<le> i \<and> i < m \<longrightarrow>
            vl4 ! i = solution ! 0 \<and> vr4 ! i = solution ! 0
            \<and> vo4 ! i = solution ! 0 \<and> vp4 ! i = vl4 ! i"
  proof (intro allI impI)
    fix i assume i: "nb + length cs + length as \<le> i \<and> i < m"
    then have "i - off < m - off" "off + (i - off) = i" by (auto simp: off_def)
    with in4 show "vl4 ! i = solution ! 0 \<and> vr4 ! i = solution ! 0
            \<and> vo4 ! i = solution ! 0 \<and> vp4 ! i = vl4 ! i"
      by metis
  qed
  show ?thesis
    by (simp add: run d len4 pub_rows c_rows a_rows p_rows)
qed

subsection \<open>ComputeZ\<close>

lemma replicate_numeral: "replicate (numeral k) x = x # replicate (pred_numeral k) x"
  by (simp add: numeral_eq_Suc)

text \<open>The numerator and the denominator of the ratio of row \<open>i\<close>.\<close>

definition Z_num :: "'a::field PublicRaw \<Rightarrow> 'a list \<Rightarrow> 'a list \<Rightarrow> 'a list \<Rightarrow> 'a \<Rightarrow> nat \<Rightarrow> 'a" where
  "Z_num p L R O' gamma i =
     (L ! i + Generator (DomainNum p) ^ i + gamma)
     * (R ! i + fst (Shifter p) * Generator (DomainNum p) ^ i + gamma)
     * (O' ! i + snd (Shifter p) * Generator (DomainNum p) ^ i + gamma)"

definition Z_den :: "'a::field PublicRaw \<Rightarrow> 'a list \<Rightarrow> 'a list \<Rightarrow> 'a list \<Rightarrow> 'a \<Rightarrow> nat \<Rightarrow> 'a" where
  "Z_den p L R O' gamma i =
     (L ! i + LS1 p ! i + gamma) * (R ! i + LS2 p ! i + gamma) * (O' ! i + LS3 p ! i + gamma)"

lemma ComputeZ_loop:
  fixes gamma :: "'a::field"
  assumes m: "0 < m" "length z0 = m" "z0 ! 0 = 1"
    and len: "m - 1 \<le> length L" "m - 1 \<le> length R" "m - 1 \<le> length O'"
      "m - 1 \<le> length (LS1 p)" "m - 1 \<le> length (LS2 p)" "m - 1 \<le> length (LS3 p)"
  shows "\<exists>vz u. for_loop 0 (m - 1)
        (\<lambda>i (vz, u0, u1, u2). do {
           li \<leftarrow> get_at L i;
           ri \<leftarrow> get_at R i;
           oi \<leftarrow> get_at O' i;
           let f0 = li + u0 + gamma;
           let f1 = ri + u1 + gamma;
           let f2 = oi + u2 + gamma;
           s1 \<leftarrow> get_at (LS1 p) i;
           s2 \<leftarrow> get_at (LS2 p) i;
           s3 \<leftarrow> get_at (LS3 p) i;
           let g0 = li + s1 + gamma;
           let g1 = ri + s2 + gamma;
           let g2 = oi + s3 + gamma;
           let f0 = f0 * f1 * f2;
           let g0 = g0 * g1 * g2;
           zi \<leftarrow> get_at vz i;
           vz \<leftarrow> set_at vz (i + 1) (zi * f0);
           zi1 \<leftarrow> get_at vz (i + 1);
           vz \<leftarrow> set_at vz (i + 1) (zi1 / g0);
           let w = Generator (DomainNum p);
           Some (vz, u0 * w, u1 * w, u2 * w) })
        (z0, 1, fst (Shifter p), snd (Shifter p)) = Some (vz, u)
     \<and> length vz = m \<and> vz ! 0 = 1
     \<and> (\<forall>i<m - 1. vz ! (i + 1) = vz ! i * Z_num p L R O' gamma i / Z_den p L R O' gamma i)"
proof -
  define I where "I = (\<lambda>j (t :: 'a list \<times> 'a \<times> 'a \<times> 'a).
     case t of (vz, u0, u1, u2) \<Rightarrow> length vz = m \<and> vz ! 0 = 1
       \<and> u0 = Generator (DomainNum p) ^ j
       \<and> u1 = fst (Shifter p) * Generator (DomainNum p) ^ j
       \<and> u2 = snd (Shifter p) * Generator (DomainNum p) ^ j
       \<and> (\<forall>i<j. vz ! (i + 1) = vz ! i * Z_num p L R O' gamma i / Z_den p L R O' gamma i))"
  have "\<exists>t. for_loop 0 (m - 1)
        (\<lambda>i (vz, u0, u1, u2). do {
           li \<leftarrow> get_at L i;
           ri \<leftarrow> get_at R i;
           oi \<leftarrow> get_at O' i;
           let f0 = li + u0 + gamma;
           let f1 = ri + u1 + gamma;
           let f2 = oi + u2 + gamma;
           s1 \<leftarrow> get_at (LS1 p) i;
           s2 \<leftarrow> get_at (LS2 p) i;
           s3 \<leftarrow> get_at (LS3 p) i;
           let g0 = li + s1 + gamma;
           let g1 = ri + s2 + gamma;
           let g2 = oi + s3 + gamma;
           let f0 = f0 * f1 * f2;
           let g0 = g0 * g1 * g2;
           zi \<leftarrow> get_at vz i;
           vz \<leftarrow> set_at vz (i + 1) (zi * f0);
           zi1 \<leftarrow> get_at vz (i + 1);
           vz \<leftarrow> set_at vz (i + 1) (zi1 / g0);
           let w = Generator (DomainNum p);
           Some (vz, u0 * w, u1 * w, u2 * w) })
        (z0, 1, fst (Shifter p), snd (Shifter p)) = Some t \<and> I (m - 1) t"
  proof (rule for_loop_total)
    show "I 0 (z0, 1, fst (Shifter p), snd (Shifter p))" using m by (simp add: I_def split_beta)
    show "0 \<le> m - 1" by simp
    fix j t assume j: "j < m - 1" and inv: "I j t"
    obtain vz u0 u1 u2 where t: "t = (vz, u0, u1, u2)" by (cases t) auto
    have rd: "get_at L j = Some (L ! j)" "get_at R j = Some (R ! j)" "get_at O' j = Some (O' ! j)"
      "get_at (LS1 p) j = Some (LS1 p ! j)" "get_at (LS2 p) j = Some (LS2 p ! j)"
      "get_at (LS3 p) j = Some (LS3 p ! j)"
      using j len by (simp_all add: get_at_def)
    have lz: "length vz = m" using inv by (simp add: I_def t)
    have zj: "get_at vz j = Some (vz ! j)" using j lz by (simp add: get_at_def)
    show "\<exists>t'. (case t of (vz, u0, u1, u2) \<Rightarrow> do {
           li \<leftarrow> get_at L j;
           ri \<leftarrow> get_at R j;
           oi \<leftarrow> get_at O' j;
           let f0 = li + u0 + gamma;
           let f1 = ri + u1 + gamma;
           let f2 = oi + u2 + gamma;
           s1 \<leftarrow> get_at (LS1 p) j;
           s2 \<leftarrow> get_at (LS2 p) j;
           s3 \<leftarrow> get_at (LS3 p) j;
           let g0 = li + s1 + gamma;
           let g1 = ri + s2 + gamma;
           let g2 = oi + s3 + gamma;
           let f0 = f0 * f1 * f2;
           let g0 = g0 * g1 * g2;
           zi \<leftarrow> get_at vz j;
           vz \<leftarrow> set_at vz (j + 1) (zi * f0);
           zi1 \<leftarrow> get_at vz (j + 1);
           vz \<leftarrow> set_at vz (j + 1) (zi1 / g0);
           let w = Generator (DomainNum p);
           Some (vz, u0 * w, u1 * w, u2 * w) }) = Some t' \<and> I (Suc j) t'"
      using inv j lz len unfolding t
      by (auto simp: Let_def I_def get_at_def set_at_def nth_list_update less_Suc_eq
            Z_num_def Z_den_def mult.commute mult.left_commute)
  qed
  then show ?thesis by (auto simp: I_def)
qed

lemma deref_fresh:
  "allocated s r \<Longrightarrow> nxt s \<le> a \<Longrightarrow> deref (s\<lparr>heap := (heap s)(a := v)\<rparr>) r = deref s r"
  by (cases r) (auto simp: allocated_def)

lemma ComputeZ_run:
  fixes gamma :: "'a::field"
  assumes m: "m = Cardinality (DomainNum (pub s))" "0 < m"
    and al: "allocated s l" "allocated s r" "allocated s o'"
    and len: "length (deref s l) = m" "length (deref s r) = m" "length (deref s o') = m"
      "length (LS1 (pub s)) = m" "length (LS2 (pub s)) = m" "length (LS3 (pub s)) = m"
  shows "\<exists>vz. ComputeZ l r o' gamma s =
        Some (Loc (nxt s), s\<lparr>heap := (heap s)(nxt s := vz), nxt := Suc (nxt s)\<rparr>)
     \<and> length vz = m \<and> vz ! 0 = 1
     \<and> (\<forall>i<m - 1. vz ! (i + 1) =
           vz ! i * Z_num (pub s) (deref s l) (deref s r) (deref s o') gamma i
             / Z_den (pub s) (deref s l) (deref s r) (deref s o') gamma i)"
proof -
  define z0 :: "'a list" where "z0 = (replicate m 0)[0 := 1]"
  have z0: "length z0 = m" "z0 ! 0 = 1" using m(2) by (simp_all add: z0_def)
  have len': "m - 1 \<le> length (deref s l)" "m - 1 \<le> length (deref s r)"
    "m - 1 \<le> length (deref s o')" "m - 1 \<le> length (LS1 (pub s))"
    "m - 1 \<le> length (LS2 (pub s))" "m - 1 \<le> length (LS3 (pub s))"
    using len by simp_all
  from ComputeZ_loop[OF m(2) z0 len', of gamma]
  obtain vz u where loop: "for_loop 0 (m - 1)
        (\<lambda>i (vz, u0, u1, u2). do {
           li \<leftarrow> get_at (deref s l) i;
           ri \<leftarrow> get_at (deref s r) i;
           oi \<leftarrow> get_at (deref s o') i;
           let f0 = li + u0 + gamma;
           let f1 = ri + u1 + gamma;
           let f2 = oi + u2 + gamma;
           s1 \<leftarrow> get_at (LS1 (pub s)) i;
           s2 \<leftarrow> get_at (LS2 (pub s)) i;
           s3 \<leftarrow> get_at (LS3 (pub s)) i;
           let g0 = li + s1 + gamma;
           let g1 = ri + s2 + gamma;
           let g2 = oi + s3 + gamma;
           let f0 = f0 * f1 * f2;
           let g0 = g0 * g1 * g2;
           zi \<leftarrow> get_at vz i;
           vz \<leftarrow> set_at vz (i + 1) (zi * f0);
           zi1 \<leftarrow> get_at vz (i + 1);
           vz \<leftarrow> set_at vz (i + 1) (zi1 / g0);
           let w = Generator (DomainNum (pub s));
           Some (vz, u0 * w, u1 * w, u2 * w) })
        (z0, 1, fst (Shifter (pub s)), snd (Shifter (pub s))) = Some (vz, u)"
    and vz: "length vz = m" "vz ! 0 = 1"
      "\<forall>i<m - 1. vz ! (i + 1) = vz ! i * Z_num (pub s) (deref s l) (deref s r) (deref s o') gamma i
          / Z_den (pub s) (deref s l) (deref s r) (deref s o') gamma i"
    by blast
  have st: "set_at (replicate m (0::'a)) 0 1 = Some z0" using m(2) by (simp add: set_at_def z0_def)
  have run: "ComputeZ l r o' gamma s = Some (Loc (nxt s),
      s\<lparr>heap := (heap s)(nxt s := vz), nxt := Suc (nxt s)\<rparr>)"
    using loop st unfolding ComputeZ_def makeSlice_def m(1)[symmetric]
    by (simp add: Let_def m(1)[symmetric] deref_fresh[OF al(1)] deref_fresh[OF al(2)]
          deref_fresh[OF al(3)])
  show ?thesis using vz run by blast
qed

text \<open>
  Claim C4. For Lagrange-basis \<open>L, R, O\<close> of length \<open>m\<close>, public data with
  \<open>LS1, LS2, LS3\<close> of length \<open>m\<close> and a domain of size \<open>m > 0\<close>, and a challenge \<open>\<gamma>\<close>
  such that no denominator factor is zero, \<^verbatim>\<open>ComputeZ\<close> returns a slice \<open>Z\<close> of length
  \<open>m\<close> with \<open>Z[0] = 1\<close> and, for every \<open>i < m - 1\<close>,
  \<open>Z[i+1] = Z[i] (L[i] + \<omega>^i + \<gamma>) (R[i] + k\<^sub>1 \<omega>^i + \<gamma>) (O[i] + k\<^sub>2 \<omega>^i + \<gamma>)
     / ((L[i] + LS1[i] + \<gamma>) (R[i] + LS2[i] + \<gamma>) (O[i] + LS3[i] + \<gamma>))\<close>.
\<close>

theorem ComputeZ_recurrence:
  fixes gamma :: "'a::field"
  assumes m: "m = Cardinality (DomainNum (pub s))" "0 < m"
    and al: "allocated s l" "allocated s r" "allocated s o'"
    and len: "length (deref s l) = m" "length (deref s r) = m" "length (deref s o') = m"
      "length (LS1 (pub s)) = m" "length (LS2 (pub s)) = m" "length (LS3 (pub s)) = m"
    and nz: "\<forall>i<m - 1. deref s l ! i + LS1 (pub s) ! i + gamma \<noteq> 0
        \<and> deref s r ! i + LS2 (pub s) ! i + gamma \<noteq> 0
        \<and> deref s o' ! i + LS3 (pub s) ! i + gamma \<noteq> 0"
  shows "\<exists>z s'. ComputeZ l r o' gamma s = Some (z, s')
     \<and> length (deref s' z) = m \<and> deref s' z ! 0 = 1
     \<and> (\<forall>i<m - 1. deref s' z ! (i + 1) =
           deref s' z ! i
           * ((deref s l ! i + Generator (DomainNum (pub s)) ^ i + gamma)
              * (deref s r ! i + fst (Shifter (pub s)) * Generator (DomainNum (pub s)) ^ i + gamma)
              * (deref s o' ! i + snd (Shifter (pub s)) * Generator (DomainNum (pub s)) ^ i + gamma))
           / ((deref s l ! i + LS1 (pub s) ! i + gamma)
              * (deref s r ! i + LS2 (pub s) ! i + gamma)
              * (deref s o' ! i + LS3 (pub s) ! i + gamma)))"
proof -
  from ComputeZ_run[OF m al len, of gamma] obtain vz where
    "ComputeZ l r o' gamma s =
        Some (Loc (nxt s), s\<lparr>heap := (heap s)(nxt s := vz), nxt := Suc (nxt s)\<rparr>)"
    "length vz = m" "vz ! 0 = 1"
    "\<forall>i<m - 1. vz ! (i + 1) =
           vz ! i * Z_num (pub s) (deref s l) (deref s r) (deref s o') gamma i
             / Z_den (pub s) (deref s l) (deref s r) (deref s o') gamma i"
    by blast
  then show ?thesis by (simp add: Z_num_def Z_den_def)
qed

theorem ComputeZ_recurrence_witness:
  "\<exists>z s'. ComputeZ (Loc 0) (Loc 1) (Loc 2) 2 ex_state = Some (z, s')
     \<and> length (deref s' z) = 2 \<and> deref s' z ! 0 = 1 \<and> deref s' z ! 1 = 1"
proof -
  have h: "(2::nat) = Cardinality (DomainNum (pub ex_state))" "0 < (2::nat)"
    "allocated ex_state (Loc 0)" "allocated ex_state (Loc 1)" "allocated ex_state (Loc 2)"
    "length (deref ex_state (Loc 0)) = 2" "length (deref ex_state (Loc 1)) = 2"
    "length (deref ex_state (Loc 2)) = 2"
    "length (LS1 (pub ex_state)) = 2" "length (LS2 (pub ex_state)) = 2"
    "length (LS3 (pub ex_state)) = 2"
    by (simp_all add: ex_state_def ex_pub_def allocated_def)
  have nz: "\<forall>i<2 - 1. deref ex_state (Loc 0) ! i + LS1 (pub ex_state) ! i + 2 \<noteq> 0
        \<and> deref ex_state (Loc 1) ! i + LS2 (pub ex_state) ! i + 2 \<noteq> 0
        \<and> deref ex_state (Loc 2) ! i + LS3 (pub ex_state) ! i + 2 \<noteq> 0"
    by (simp add: ex_state_def ex_pub_def)
  from ComputeZ_recurrence[OF h nz] obtain z s' where
    r: "ComputeZ (Loc 0) (Loc 1) (Loc 2) 2 ex_state = Some (z, s')"
      "length (deref s' z) = 2" "deref s' z ! 0 = 1"
      "\<forall>i<2 - 1. deref s' z ! (i + 1) =
           deref s' z ! i
           * ((deref ex_state (Loc 0) ! i + Generator (DomainNum (pub ex_state)) ^ i + 2)
              * (deref ex_state (Loc 1) ! i + fst (Shifter (pub ex_state)) * Generator (DomainNum (pub ex_state)) ^ i + 2)
              * (deref ex_state (Loc 2) ! i + snd (Shifter (pub ex_state)) * Generator (DomainNum (pub ex_state)) ^ i + 2))
           / ((deref ex_state (Loc 0) ! i + LS1 (pub ex_state) ! i + 2)
              * (deref ex_state (Loc 1) ! i + LS2 (pub ex_state) ! i + 2)
              * (deref ex_state (Loc 2) ! i + LS3 (pub ex_state) ! i + 2))"
    by blast
  from r(4) r(3) have "deref s' z ! 1 = 1"
    by (simp add: ex_state_def ex_pub_def)
  with r show ?thesis by blast
qed

text \<open>
  Claim C2 says that \<^verbatim>\<open>ComputeZ\<close> returns an error when a denominator factor is zero.
  The function has one result, the polynomial. In the store below the first
  denominator factor of row \<open>0\<close> is \<open>L[0] + LS1[0] + \<gamma> = 1 + 1 - 2 = 0\<close>, and the call
  returns the polynomial \<open>[1, 0]\<close>.
\<close>

theorem ComputeZ_zero_denominator_counterexample:
  "deref ex_state (Loc 0) ! 0 + LS1 (pub ex_state) ! 0 + (- 2) = 0
   \<and> returned_slice (ComputeZ (Loc 0) (Loc 1) (Loc 2) (- 2) ex_state) = Some [1, 0]"
  by (simp add: ComputeZ_def makeSlice_def returned_slice_def ex_state_def ex_pub_def Let_def
        for_loop.simps get_at_def set_at_def replicate_numeral)

text \<open>
  Claim C2, amended. \<^verbatim>\<open>ComputeZ\<close> has no error result: for a domain of size \<open>m > 0\<close> and
  \<open>L, R, O, LS1, LS2, LS3\<close> of length \<open>m\<close>, whether or not a denominator factor is zero,
  it returns a slice \<open>Z\<close> of length \<open>m\<close> with \<open>Z[0] = 1\<close>.
\<close>

theorem ComputeZ_returns_polynomial:
  fixes gamma :: "'a::field"
  assumes m: "m = Cardinality (DomainNum (pub s))" "0 < m"
    and al: "allocated s l" "allocated s r" "allocated s o'"
    and len: "length (deref s l) = m" "length (deref s r) = m" "length (deref s o') = m"
      "length (LS1 (pub s)) = m" "length (LS2 (pub s)) = m" "length (LS3 (pub s)) = m"
  shows "\<exists>z s'. ComputeZ l r o' gamma s = Some (z, s')
     \<and> length (deref s' z) = m \<and> deref s' z ! 0 = 1"
proof -
  from ComputeZ_run[OF m al len, of gamma] obtain vz where
    "ComputeZ l r o' gamma s =
        Some (Loc (nxt s), s\<lparr>heap := (heap s)(nxt s := vz), nxt := Suc (nxt s)\<rparr>)"
    "length vz = m" "vz ! 0 = 1"
    by blast
  then show ?thesis by simp
qed

theorem ComputeZ_returns_polynomial_witness:
  "\<exists>z s'. ComputeZ (Loc 0) (Loc 1) (Loc 2) (- 2) ex_state = Some (z, s')
     \<and> length (deref s' z) = 2 \<and> deref s' z ! 0 = 1"
proof -
  have h: "(2::nat) = Cardinality (DomainNum (pub ex_state))" "0 < (2::nat)"
    "allocated ex_state (Loc 0)" "allocated ex_state (Loc 1)" "allocated ex_state (Loc 2)"
    "length (deref ex_state (Loc 0)) = 2" "length (deref ex_state (Loc 1)) = 2"
    "length (deref ex_state (Loc 2)) = 2"
    "length (LS1 (pub ex_state)) = 2" "length (LS2 (pub ex_state)) = 2"
    "length (LS3 (pub ex_state)) = 2"
    by (simp_all add: ex_state_def ex_pub_def allocated_def)
  from ComputeZ_returns_polynomial[OF h] show ?thesis .
qed

subsection \<open>Instances for shiftZ and ComputeLRO\<close>

theorem shiftZ_cyclic_witness:
  "\<exists>res s'. shiftZ (Loc 1) ex_state = Some (res, s')
     \<and> deref s' res = [5, 1] \<and> deref s' (Loc 1) = [1, 5]"
proof -
  have h: "allocated ex_state (Loc 1)" "0 < length (deref ex_state (Loc 1))"
    by (simp_all add: ex_state_def allocated_def)
  from shiftZ_cyclic[OF h] obtain res s' where
    r: "shiftZ (Loc 1) ex_state = Some (res, s')"
      "length (deref s' res) = length (deref ex_state (Loc 1))"
      "\<forall>i<length (deref ex_state (Loc 1)). deref s' res ! i =
          deref ex_state (Loc 1) ! ((i + 1) mod length (deref ex_state (Loc 1)))"
      "deref s' (Loc 1) = deref ex_state (Loc 1)"
    by blast
  have "length (deref s' res) = 2" "deref s' res ! 0 = 5" "deref s' res ! 1 = 1"
    using r(2,3) by (simp_all add: ex_state_def)
  then have "deref s' res = [5, 1]"
    by (cases "deref s' res"; cases "tl (deref s' res)") auto
  with r(1,4) show ?thesis by (auto simp: ex_state_def)
qed

theorem ComputeLRO_rows_witness:
  "\<exists>l r o' pl s'. ComputeLRO ex_spr ex_witness ex_state = Some ((l, r, o', pl), s')
     \<and> length (deref s' l) = 2 \<and> length (deref s' pl) = 2
     \<and> deref s' l ! 0 = 1 \<and> deref s' r ! 0 = 1 \<and> deref s' o' ! 0 = 1 \<and> deref s' pl ! 0 = 0
     \<and> deref s' l ! 1 = 3 \<and> deref s' r ! 1 = 5 \<and> deref s' o' ! 1 = 3 \<and> deref s' pl ! 1 = 3"
proof -
  have h: "(1::nat) = NbPublicVariables ex_spr" "Constraints ex_spr = Constraints ex_spr"
    "[] = Assertions ex_spr" "(2::nat) = Cardinality (DomainNum (pub ex_state))"
    "1 + length (Constraints ex_spr) + length ([] :: SparseR1C list) \<le> (2::nat)"
    "(1::nat) \<le> length ex_witness" "0 < length ex_witness"
    "\<forall>c\<in>set (Constraints ex_spr) \<union> set []. VariableID (termL c) < length ex_witness
           \<and> VariableID (termR c) < length ex_witness \<and> VariableID (termO c) < length ex_witness"
    by (simp_all add: ex_spr_def ex_state_def ex_pub_def ex_witness_def)
  from ComputeLRO_rows[OF h] obtain l r o' pl s' where
    r: "ComputeLRO ex_spr ex_witness ex_state = Some ((l, r, o', pl), s')"
      "length (deref s' l) = 2" "length (deref s' pl) = 2"
      "\<forall>i<1. deref s' l ! i = ex_witness ! i \<and> deref s' r ! i = ex_witness ! 0
            \<and> deref s' o' ! i = ex_witness ! 0 \<and> deref s' pl ! i = 0"
      "\<forall>i<length (Constraints ex_spr).
            deref s' l ! (1 + i) = ex_witness ! VariableID (termL (Constraints ex_spr ! i))
            \<and> deref s' r ! (1 + i) = ex_witness ! VariableID (termR (Constraints ex_spr ! i))
            \<and> deref s' o' ! (1 + i) = ex_witness ! VariableID (termO (Constraints ex_spr ! i))
            \<and> deref s' pl ! (1 + i) = deref s' l ! (1 + i)"
    by blast
  from r(4,5) have "deref s' l ! 0 = 1 \<and> deref s' r ! 0 = 1 \<and> deref s' o' ! 0 = 1
     \<and> deref s' pl ! 0 = 0 \<and> deref s' l ! 1 = 3 \<and> deref s' r ! 1 = 5 \<and> deref s' o' ! 1 = 3
     \<and> deref s' pl ! 1 = 3"
    by (simp add: ex_spr_def ex_witness_def)
  with r(1,2,3) show ?thesis by blast
qed

subsection \<open>decomposeScalarG1\<close>

text \<open>
  Claim C10. The function that \<^verbatim>\<open>decomposeScalarG1\<close> runs through
  \<^verbatim>\<open>emulated.UnwrapHint\<close> returns an error when the unwrapped inputs are not three or
  the unwrapped outputs are not six. Otherwise it succeeds, and then the outputs
  \<open>4\<close> and \<open>5\<close> hold the two signed halves of \<^verbatim>\<open>ecc.SplitScalar\<close>, the outputs \<open>0\<close>
  and \<open>1\<close> their absolute values, which are not negative, and the outputs \<open>2\<close> and
  \<open>3\<close> are \<open>1\<close> when the half is not negative and \<open>0\<close> when it is.
\<close>

theorem decomposeScalarG1_outputs:
  "decomposeScalarG1 UnwrapHint E mod' natIn natOut = UnwrapHint natIn natOut (decomposeScalarG1_hint E)
   \<and> (length inputs \<noteq> 3 \<or> length outputs \<noteq> 6 \<longrightarrow>
        (\<exists>e. decomposeScalarG1_hint E field inputs outputs = Inl e))
   \<and> (length inputs = 3 \<and> length outputs = 6 \<longrightarrow>
        (\<exists>outs. decomposeScalarG1_hint E field inputs outputs = Inr outs
           \<and> length outs = 6
           \<and> outs ! 4 = fst (SplitScalar E (inputs ! 0) (PrecomputeLattice E (inputs ! 2) (inputs ! 1)))
           \<and> outs ! 5 = snd (SplitScalar E (inputs ! 0) (PrecomputeLattice E (inputs ! 2) (inputs ! 1)))
           \<and> outs ! 0 = \<bar>outs ! 4\<bar> \<and> outs ! 1 = \<bar>outs ! 5\<bar>
           \<and> 0 \<le> outs ! 0 \<and> 0 \<le> outs ! 1
           \<and> outs ! 2 = (if 0 \<le> outs ! 4 then 1 else 0)
           \<and> outs ! 3 = (if 0 \<le> outs ! 5 then 1 else 0)))"
  by (auto simp: decomposeScalarG1_def decomposeScalarG1_hint_def Let_def sgn_if)

theorem decomposeScalarG1_outputs_witness:
  "decomposeScalarG1_hint \<lparr>PrecomputeLattice = (\<lambda>r l. r + l), SplitScalar = (\<lambda>x b. (x - b, b - 2 * x))\<rparr>
      0 [7, 2, 3] [0, 0, 0, 0, 0, 0] = Inr [2, 9, 1, 0, 2, - 9]
   \<and> (\<exists>e. decomposeScalarG1_hint \<lparr>PrecomputeLattice = (\<lambda>r l. r + l), SplitScalar = (\<lambda>x b. (x - b, b - 2 * x))\<rparr>
      0 [7, 2] [0, 0, 0, 0, 0, 0] = Inl e)"
  using decomposeScalarG1_outputs[of "\<lambda>i o' f. Inl []" "\<lparr>PrecomputeLattice = (\<lambda>r l. r + l), SplitScalar = (\<lambda>x b. (x - b, b - 2 * x))\<rparr>"
      0 "[]" "[]" "[7, 2, 3]" "[0, 0, 0, 0, 0, 0]" 0]
    decomposeScalarG1_outputs[of "\<lambda>i o' f. Inl []" "\<lparr>PrecomputeLattice = (\<lambda>r l. r + l), SplitScalar = (\<lambda>x b. (x - b, b - 2 * x))\<rparr>"
      0 "[]" "[]" "[7, 2]" "[0, 0, 0, 0, 0, 0]" 0]
  by (simp add: decomposeScalarG1_hint_def Let_def)

end
